theory Spec2Isabelle
  imports Main
begin

section \<open>Data model of the blacklist plugin (main.py)\<close>

text \<open>
  Identifiers and free texts are Python \<open>str\<close> values. A \<open>datetime\<close> is the
  number of microseconds since 0001-01-01T00:00:00; \<open>isoformat\<close> is injective on
  datetimes, so the ISO string kept in the store is represented by the datetime it
  renders. Python's \<open>int\<close> is unbounded and is modelled by \<open>int\<close>.
\<close>

type_synonym user_id = string
type_synonym timestamp = int

text \<open>
  The exceptions that the modelled code can meet: the three \<open>OverflowError\<close>s of
  \<open>datetime.now() + timedelta(seconds=n)\<close> (a number of days that does not fit a C int,
  a number of days beyond the range of a timedelta, a date beyond the calendar), the
  \<open>ZeroDivisionError\<close> of the floor division by \<open>page_size\<close>, and whatever a call into a
  collaborator raises.
\<close>

datatype exn =
    Int_too_large_for_C_int
  | Timedelta_days_overflow int
  | Date_value_out_of_range
  | ZeroDivisionError
  | Collaborator_error string

text \<open>
  The texts built by the plugin. Each constructor stands for one literal or f-string of
  main.py (the line is given), carrying the interpolated values.
\<close>

datatype message =
    Permanent                           \<comment> \<open>lines 335, 428, 462: the word for "permanent"\<close>
  | No_reason                           \<comment> \<open>lines 429, 463: the word for "none"\<close>
  | Permission_denied user_id user_id   \<comment> \<open>line 293: sender, target\<close>
  | Cannot_block_admin                  \<comment> \<open>line 300\<close>
  | Already_blacklisted user_id         \<comment> \<open>line 307\<close>
  | Blocked user_id                     \<comment> \<open>line 333\<close>
  | Operation_failed exn                \<comment> \<open>lines 343, 393: carries str(e)\<close>
  | Unblock_denied                      \<comment> \<open>line 365\<close>
  | Not_in_blacklist user_id            \<comment> \<open>lines 173, 373\<close>
  | Unblocked user_id                   \<comment> \<open>line 381\<close>
  | Unblock_failed                      \<comment> \<open>line 387\<close>
  | Query_failed exn                    \<comment> \<open>lines 442, 473: carries str(e)\<close>
  | Added_for user_id int               \<comment> \<open>line 200: user, duration in seconds\<close>
  | Added_permanently user_id           \<comment> \<open>line 203\<close>
  | Add_error                           \<comment> \<open>lines 205, 209\<close>
  | Blacklist_empty                     \<comment> \<open>line 122\<close>
  | List_error                          \<comment> \<open>line 163\<close>

text \<open>
  The value handed to \<open>json.dumps\<close>. A dict keeps the insertion order of its keys, so
  an object is an association list. \<open>JText\<close> is a string built by the plugin, \<open>JStr\<close> a
  string passed through, \<open>JTime\<close> the ISO string of a datetime.
\<close>

datatype json =
    JBool bool
  | JInt int
  | JStr string
  | JText message
  | JTime timestamp
  | JArr "json list"
  | JObj "(string \<times> json) list"

type_synonym payload = "(string \<times> json) list"

text \<open>A row of the blacklist table: user_id, ban_time, expire_time, reason.\<close>

type_synonym row = "user_id \<times> timestamp \<times> timestamp option \<times> string"

subsection \<open>Collaborators\<close>

text \<open>
  Modelled from the spec: the class \<open>BlacklistDatabase\<close> (module \<open>database\<close>) is not
  part of the sources at hand. Its interface is the record store contract of the
  specification. Every operation takes the state of the store and returns the new one;
  since main.py wraps every call in \<open>try\<close>, an operation may also raise (\<open>Inl\<close>).
\<close>

record 's database =
  is_user_blacklisted :: "user_id \<Rightarrow> 's \<Rightarrow> (exn + bool) \<times> 's"
  get_user_info :: "user_id \<Rightarrow> 's \<Rightarrow> (exn + row option) \<times> 's"
  get_blacklist_count :: "'s \<Rightarrow> (exn + int) \<times> 's"
  get_blacklist_users :: "int \<Rightarrow> int \<Rightarrow> 's \<Rightarrow> (exn + row list) \<times> 's"
  add_user :: "user_id \<Rightarrow> timestamp \<Rightarrow> timestamp option \<Rightarrow> string \<Rightarrow> 's \<Rightarrow> (exn + bool) \<times> 's"
  remove_user :: "user_id \<Rightarrow> 's \<Rightarrow> (exn + bool) \<times> 's"

text \<open>The configuration read in \<open>__init__\<close> (lines 26 to 38).\<close>

record config =
  max_blacklist_duration :: int
  allow_permanent_blacklist :: bool
  show_blacklist_status :: bool
  blacklist_message :: string
  auto_delete_expired_after :: int
  allow_blacklist_admin :: bool

text \<open>
  What the handlers read from the framework's \<open>AstrMessageEvent\<close>. The fields are
  named after the accessors; \<open>get_messages\<close> is the message chain.
\<close>

record event =
  is_at_or_wake_command :: bool
  get_sender_id :: user_id
  get_self_id :: user_id
  is_admin :: bool
  get_messages :: "string list"

text \<open>What a handler does to the event: \<open>event.stop_event()\<close> and \<open>event.send(...)\<close>.\<close>

datatype action = Stop_event | Send string

subsection \<open>Time arithmetic\<close>

text \<open>
  \<open>datetime.max\<close> is 9999-12-31T23:59:59.999999, day 3652059 of the calendar.
  \<open>timedelta(seconds=n)\<close> normalises to days and seconds. It raises "Python int too large
  to convert to C int" when the number of days is outside the range of a C int
  (-2147483648 to 2147483647), and "days=...; must have magnitude <= 999999999" when the
  number of days exceeds 999999999 in magnitude; adding a timedelta raises when the
  result leaves the calendar.
\<close>

definition max_datetime :: timestamp where
  "max_datetime = 3652059 * 86400 * 1000000 - 1"

definition timedelta_seconds :: "int \<Rightarrow> exn + int" where
  "timedelta_seconds n =
     (if n div 86400 > 2147483647 \<or> n div 86400 < - 2147483648
      then Inl Int_too_large_for_C_int
      else if \<bar>n div 86400\<bar> > 999999999 then Inl (Timedelta_days_overflow (n div 86400))
      else Inr (n * 1000000))"

definition datetime_add :: "timestamp \<Rightarrow> int \<Rightarrow> exn + timestamp" where
  "datetime_add t d =
     (if 0 \<le> t + d \<and> t + d \<le> max_datetime then Inr (t + d) else Inl Date_value_out_of_range)"

text \<open>\<open>(datetime.now() + timedelta(seconds=n)).isoformat()\<close>, with \<open>now\<close> the clock reading.\<close>

definition now_plus_seconds :: "timestamp \<Rightarrow> int \<Rightarrow> exn + timestamp" where
  "now_plus_seconds now n =
     (case timedelta_seconds n of
        Inl e \<Rightarrow> Inl e
      | Inr d \<Rightarrow> datetime_add now d)"

section \<open>The message hook\<close>

text \<open>
  \<open>on_all_message\<close> (lines 86 to 104). The result is the list of actions performed on the
  event and the store after the call. An exception inside the \<open>try\<close> is logged and
  swallowed (line 103); a failing \<open>event.send\<close> is caught there too, after the send was
  attempted, and nothing follows it.
\<close>

definition on_all_message :: "config \<Rightarrow> 's database \<Rightarrow> event \<Rightarrow> 's \<Rightarrow> action list \<times> 's" where
  "on_all_message cfg db ev s =
     (if \<not> is_at_or_wake_command ev then ([], s)
      else if is_admin ev \<and> \<not> allow_blacklist_admin cfg then ([], s)
      else
        (case is_user_blacklisted db (get_sender_id ev) s of
           (Inl e, s1) \<Rightarrow> ([], s1)
         | (Inr listed, s1) \<Rightarrow>
             if listed then
               (Stop_event #
                  (if get_messages ev = [] then []
                   else if show_blacklist_status cfg then [Send (blacklist_message cfg)]
                   else []), s1)
             else ([], s1)))"

section \<open>The agent tools\<close>

text \<open>\<open>user_id if user_id else event.get_sender_id()\<close>: None and the empty string are falsy.\<close>

definition target_of :: "string option \<Rightarrow> event \<Rightarrow> user_id" where
  "target_of user_id ev =
     (case user_id of
        None \<Rightarrow> get_sender_id ev
      | Some u \<Rightarrow> if u = [] then get_sender_id ev else u)"

text \<open>
  The duration finally applied by \<open>block_user\<close> (lines 313 to 321): zero becomes the
  maximum when permanent entries are not allowed, then anything above the maximum
  becomes the maximum.
\<close>

definition actual_duration :: "config \<Rightarrow> int \<Rightarrow> int" where
  "actual_duration cfg duration =
     (let a = (if duration = 0 \<and> \<not> allow_permanent_blacklist cfg
               then max_blacklist_duration cfg else duration)
      in if a > max_blacklist_duration cfg then max_blacklist_duration cfg else a)"

text \<open>
  The body of the \<open>try\<close> of \<open>block_user\<close> (lines 278 to 337). \<open>t_ban\<close> and \<open>t_exp\<close> are
  the two readings of \<open>datetime.now()\<close> (lines 311 and 325).
\<close>

definition block_user_try ::
  "config \<Rightarrow> 's database \<Rightarrow> event \<Rightarrow> timestamp \<Rightarrow> timestamp \<Rightarrow>
   string option \<Rightarrow> int \<Rightarrow> string \<Rightarrow> 's \<Rightarrow> (exn + payload) \<times> 's" where
  "block_user_try cfg db ev t_ban t_exp user_id duration reason s =
     (let target_id = target_of user_id ev;
          sender_id = get_sender_id ev;
          self_id = get_self_id ev;
          is_self_defense = (target_id = sender_id)
      in
      if \<not> is_admin ev \<and> \<not> is_self_defense \<and> sender_id \<noteq> self_id then
        (Inr [(''success'', JBool False),
              (''message'', JText (Permission_denied sender_id target_id))], s)
      else if target_id = sender_id \<and> is_admin ev \<and> \<not> allow_blacklist_admin cfg then
        (Inr [(''success'', JBool False), (''message'', JText Cannot_block_admin)], s)
      else
        (case is_user_blacklisted db target_id s of
           (Inl e, s1) \<Rightarrow> (Inl e, s1)
         | (Inr listed, s1) \<Rightarrow>
             if listed then
               (Inr [(''success'', JBool True),
                     (''message'', JText (Already_blacklisted target_id)),
                     (''user_id'', JStr target_id)], s1)
             else
               (let a = actual_duration cfg duration in
                case (if a > 0 then map_sum id Some (now_plus_seconds t_exp a) else Inr None) of
                  Inl e \<Rightarrow> (Inl e, s1)
                | Inr expire_time \<Rightarrow>
                    (case add_user db target_id t_ban expire_time reason s1 of
                       (Inl e, s2) \<Rightarrow> (Inl e, s2)
                     | (Inr added, s2) \<Rightarrow>
                         (Inr [(''success'', JBool True),
                               (''message'', JText (Blocked target_id)),
                               (''user_id'', JStr target_id),
                               (''duration'', if a > 0 then JInt a else JText Permanent),
                               (''reason'', JStr reason)], s2)))))"

text \<open>\<open>block_user\<close> (lines 264 to 344): the body, and the \<open>except Exception\<close> of line 339.\<close>

definition block_user ::
  "config \<Rightarrow> 's database \<Rightarrow> event \<Rightarrow> timestamp \<Rightarrow> timestamp \<Rightarrow>
   string option \<Rightarrow> int \<Rightarrow> string \<Rightarrow> 's \<Rightarrow> (exn + payload) \<times> 's" where
  "block_user cfg db ev t_ban t_exp user_id duration reason s =
     (case block_user_try cfg db ev t_ban t_exp user_id duration reason s of
        (Inl e, s1) \<Rightarrow>
          (Inr [(''success'', JBool False), (''message'', JText (Operation_failed e))], s1)
      | (Inr p, s1) \<Rightarrow> (Inr p, s1))"

text \<open>
  The body of the \<open>try\<close> of \<open>unblock_user\<close> (lines 357 to 388). \<open>if not user\<close> holds
  when the store has no current entry.
\<close>

definition unblock_user_try ::
  "'s database \<Rightarrow> event \<Rightarrow> user_id \<Rightarrow> 's \<Rightarrow> (exn + payload) \<times> 's" where
  "unblock_user_try db ev user_id s =
     (let sender_id = get_sender_id ev;
          self_id = get_self_id ev
      in
      if \<not> is_admin ev \<and> sender_id \<noteq> self_id then
        (Inr [(''success'', JBool False), (''message'', JText Unblock_denied)], s)
      else
        (case get_user_info db user_id s of
           (Inl e, s1) \<Rightarrow> (Inl e, s1)
         | (Inr None, s1) \<Rightarrow>
             (Inr [(''success'', JBool True),
                   (''message'', JText (Not_in_blacklist user_id)),
                   (''user_id'', JStr user_id)], s1)
         | (Inr (Some user), s1) \<Rightarrow>
             (case remove_user db user_id s1 of
                (Inl e, s2) \<Rightarrow> (Inl e, s2)
              | (Inr removed, s2) \<Rightarrow>
                  if removed then
                    (Inr [(''success'', JBool True),
                          (''message'', JText (Unblocked user_id)),
                          (''user_id'', JStr user_id)], s2)
                  else
                    (Inr [(''success'', JBool False),
                          (''message'', JText Unblock_failed)], s2))))"

text \<open>\<open>unblock_user\<close> (lines 347 to 394).\<close>

definition unblock_user ::
  "'s database \<Rightarrow> event \<Rightarrow> user_id \<Rightarrow> 's \<Rightarrow> (exn + payload) \<times> 's" where
  "unblock_user db ev user_id s =
     (case unblock_user_try db ev user_id s of
        (Inl e, s1) \<Rightarrow>
          (Inr [(''success'', JBool False), (''message'', JText (Operation_failed e))], s1)
      | (Inr p, s1) \<Rightarrow> (Inr p, s1))"

text \<open>
  One element of \<open>users\<close> (lines 425 to 430), also the fields of lines 460 to 463: a
  missing expire_time is shown as "permanent", an empty reason as "none".
\<close>

definition user_json :: "row \<Rightarrow> payload" where
  "user_json user =
     (case user of (user_id, ban_time, expire_time, reason) \<Rightarrow>
        [(''user_id'', JStr user_id),
         (''ban_time'', JTime ban_time),
         (''expire_time'', case expire_time of None \<Rightarrow> JText Permanent | Some t \<Rightarrow> JTime t),
         (''reason'', if reason = [] then JText No_reason else JStr reason)])"

text \<open>
  The body of the \<open>try\<close> of \<open>list_blacklist\<close> (lines 408 to 438). \<open>//\<close> is floor
  division, as \<open>div\<close> on \<open>int\<close>, and raises on a zero divisor.
\<close>

definition list_blacklist_try ::
  "'s database \<Rightarrow> int \<Rightarrow> int \<Rightarrow> 's \<Rightarrow> (exn + payload) \<times> 's" where
  "list_blacklist_try db page page_size s =
     (case get_blacklist_count db s of
        (Inl e, s1) \<Rightarrow> (Inl e, s1)
      | (Inr total_count, s1) \<Rightarrow>
          if total_count = 0 then
            (Inr [(''total_count'', JInt 0), (''users'', JArr [])], s1)
          else if page_size = 0 then (Inl ZeroDivisionError, s1)
          else
            (let total_pages = (total_count + page_size - 1) div page_size;
                 page1 = (if page < 1 then 1
                          else if page > total_pages then total_pages else page)
             in
             case get_blacklist_users db page1 page_size s1 of
               (Inl e, s2) \<Rightarrow> (Inl e, s2)
             | (Inr users_data, s2) \<Rightarrow>
                 (Inr [(''total_count'', JInt total_count),
                       (''total_pages'', JInt total_pages),
                       (''current_page'', JInt page1),
                       (''page_size'', JInt page_size),
                       (''users'', JArr (map (\<lambda>user. JObj (user_json user)) users_data))],
                  s2)))"

text \<open>\<open>list_blacklist\<close> (lines 397 to 443).\<close>

definition list_blacklist ::
  "'s database \<Rightarrow> int \<Rightarrow> int \<Rightarrow> 's \<Rightarrow> (exn + payload) \<times> 's" where
  "list_blacklist db page page_size s =
     (case list_blacklist_try db page page_size s of
        (Inl e, s1) \<Rightarrow> (Inr [(''error'', JText (Query_failed e))], s1)
      | (Inr p, s1) \<Rightarrow> (Inr p, s1))"

text \<open>\<open>get_blacklist_status\<close> (lines 446 to 474).\<close>

definition get_blacklist_status_try ::
  "'s database \<Rightarrow> event \<Rightarrow> string option \<Rightarrow> 's \<Rightarrow> (exn + payload) \<times> 's" where
  "get_blacklist_status_try db ev user_id s =
     (let target_id = target_of user_id ev in
      case get_user_info db target_id s of
        (Inl e, s1) \<Rightarrow> (Inl e, s1)
      | (Inr (Some user_info), s1) \<Rightarrow>
          (Inr ((''is_blacklisted'', JBool True) # user_json user_info), s1)
      | (Inr None, s1) \<Rightarrow>
          (Inr [(''is_blacklisted'', JBool False), (''user_id'', JStr target_id)], s1))"

definition get_blacklist_status ::
  "'s database \<Rightarrow> event \<Rightarrow> string option \<Rightarrow> 's \<Rightarrow> (exn + payload) \<times> 's" where
  "get_blacklist_status db ev user_id s =
     (case get_blacklist_status_try db ev user_id s of
        (Inl e, s1) \<Rightarrow> (Inr [(''error'', JText (Query_failed e))], s1)
      | (Inr p, s1) \<Rightarrow> (Inr p, s1))"

section \<open>The administrator commands\<close>

text \<open>
  The commands are generators that yield one result. The framework admits only
  administrators to them (\<open>filter.permission_type\<close>); the handlers do not check it.
\<close>

text \<open>
  The strings returned by \<open>_format_datetime\<close> (lines 50 to 84). A datetime of the store
  is a datetime here, not a string to be parsed, so the branch of line 82 has no input.
\<close>

datatype time_text =
    Forever
  | Expired
  | Formatted timestamp
  | Formatted_remaining timestamp int int int

definition format_datetime :: "timestamp \<Rightarrow> timestamp option \<Rightarrow> bool \<Rightarrow> bool \<Rightarrow> time_text" where
  "format_datetime now iso_datetime show_remaining check_expire =
     (case iso_datetime of
        None \<Rightarrow> Forever
      | Some t \<Rightarrow>
          if check_expire \<and> now > t then Expired
          else if show_remaining then
            (if now > t then Expired
             else
               (let remaining = t - now;
                    days = remaining div 86400000000;
                    seconds = (remaining div 1000000) mod 86400
                in Formatted_remaining t days (seconds div 3600) ((seconds mod 3600) div 60)))
          else Formatted t)"

text \<open>
  The text assembled by \<open>ls\<close> (lines 134 to 154): the table rows, the footer, and the
  hints for the previous and the next page. An empty reason is shown as "none" (None).
\<close>

record listing =
  listing_rows :: "(user_id \<times> time_text \<times> time_text \<times> string option) list"
  listing_page :: int
  listing_total_pages :: int
  listing_total_count :: int
  listing_page_size :: int
  listing_previous :: "(int \<times> int) option"
  listing_next :: "(int \<times> int) option"

datatype reply = Plain_result message | Plain_listing listing | Image_result string

definition listing_row :: "timestamp \<Rightarrow> row \<Rightarrow> user_id \<times> time_text \<times> time_text \<times> string option" where
  "listing_row now user =
     (case user of (user_id, ban_time, expire_time, reason) \<Rightarrow>
        (user_id,
         format_datetime now (Some ban_time) False False,
         format_datetime now expire_time False True,
         if reason = [] then None else Some reason))"

text \<open>
  The body of the \<open>try\<close> of \<open>ls\<close> (lines 119 to 160). \<open>text_to_image\<close> belongs to a
  module that is not at hand and is a parameter: it returns the image data, or nothing.
\<close>

definition ls_try ::
  "'s database \<Rightarrow> (listing \<Rightarrow> exn + string option) \<Rightarrow> timestamp \<Rightarrow> int \<Rightarrow> int \<Rightarrow> 's \<Rightarrow>
   (exn + reply) \<times> 's" where
  "ls_try db text_to_image now page page_size s =
     (case get_blacklist_count db s of
        (Inl e, s1) \<Rightarrow> (Inl e, s1)
      | (Inr total_count, s1) \<Rightarrow>
          if total_count = 0 then (Inr (Plain_result Blacklist_empty), s1)
          else if page_size = 0 then (Inl ZeroDivisionError, s1)
          else
            (let total_pages = (total_count + page_size - 1) div page_size;
                 page1 = (if page < 1 then 1
                          else if page > total_pages then total_pages else page)
             in
             case get_blacklist_users db page1 page_size s1 of
               (Inl e, s2) \<Rightarrow> (Inl e, s2)
             | (Inr users, s2) \<Rightarrow>
                 (let result =
                        \<lparr>listing_rows = map (listing_row now) users,
                         listing_page = page1,
                         listing_total_pages = total_pages,
                         listing_total_count = total_count,
                         listing_page_size = page_size,
                         listing_previous =
                           (if page1 > 1 then Some (page1 - 1, page_size) else None),
                         listing_next =
                           (if page1 < total_pages then Some (page1 + 1, page_size) else None)\<rparr>
                  in
                  case text_to_image result of
                    Inl e \<Rightarrow> (Inl e, s2)
                  | Inr None \<Rightarrow> (Inr (Plain_listing result), s2)
                  | Inr (Some image_data) \<Rightarrow>
                      if image_data = [] then (Inr (Plain_listing result), s2)
                      else (Inr (Image_result image_data), s2))))"

text \<open>\<open>ls\<close> (lines 112 to 163).\<close>

definition ls ::
  "'s database \<Rightarrow> (listing \<Rightarrow> exn + string option) \<Rightarrow> timestamp \<Rightarrow> int \<Rightarrow> int \<Rightarrow> 's \<Rightarrow>
   (exn + reply) \<times> 's" where
  "ls db text_to_image now page page_size s =
     (case ls_try db text_to_image now page page_size s of
        (Inl e, s1) \<Rightarrow> (Inr (Plain_result List_error), s1)
      | (Inr r, s1) \<Rightarrow> (Inr r, s1))"

text \<open>
  The body of the \<open>try\<close> of \<open>add\<close> (lines 191 to 205). \<open>t_ban\<close> and \<open>t_exp\<close> are the
  readings of \<open>datetime.now()\<close> of lines 191 and 195.
\<close>

definition add_try ::
  "'s database \<Rightarrow> timestamp \<Rightarrow> timestamp \<Rightarrow> user_id \<Rightarrow> int \<Rightarrow> string \<Rightarrow> 's \<Rightarrow>
   (exn + reply) \<times> 's" where
  "add_try db t_ban t_exp user_id duration reason s =
     (case (if duration > 0 then map_sum id Some (now_plus_seconds t_exp duration)
            else Inr None) of
        Inl e \<Rightarrow> (Inl e, s)
      | Inr expire_time \<Rightarrow>
          (case add_user db user_id t_ban expire_time reason s of
             (Inl e, s1) \<Rightarrow> (Inl e, s1)
           | (Inr added, s1) \<Rightarrow>
               if added then
                 (if duration > 0 then (Inr (Plain_result (Added_for user_id duration)), s1)
                  else (Inr (Plain_result (Added_permanently user_id)), s1))
               else (Inr (Plain_result Add_error), s1)))"

text \<open>\<open>add\<close> (lines 186 to 209).\<close>

definition add ::
  "'s database \<Rightarrow> timestamp \<Rightarrow> timestamp \<Rightarrow> user_id \<Rightarrow> int \<Rightarrow> string \<Rightarrow> 's \<Rightarrow>
   (exn + reply) \<times> 's" where
  "add db t_ban t_exp user_id duration reason s =
     (case add_try db t_ban t_exp user_id duration reason s of
        (Inl e, s1) \<Rightarrow> (Inr (Plain_result Add_error), s1)
      | (Inr r, s1) \<Rightarrow> (Inr r, s1))"

section \<open>The record store\<close>

text \<open>
  Modelled from the spec: the implementation of \<open>BlacklistDatabase\<close> is not at hand.
  The store holds at most one row per user, the current time, and whether the backing
  storage is failing. An entry is active while its expire_time, if any, has not passed.
  Storage errors never leave the store: an operation on failing storage returns False,
  nothing, zero or no rows.
\<close>

record store =
  rows :: "row list"
  clock :: timestamp
  storage_fault :: bool

text \<open>Modelled from the spec: the attributes of an entry.\<close>

definition row_user :: "row \<Rightarrow> user_id" where
  "row_user r = fst r"

definition row_ban_time :: "row \<Rightarrow> timestamp" where
  "row_ban_time r = fst (snd r)"

definition row_expire_time :: "row \<Rightarrow> timestamp option" where
  "row_expire_time r = fst (snd (snd r))"

text \<open>
  Modelled from the spec: an entry is expired once its expire_time has passed; an entry
  without expire_time is permanent.
\<close>

definition expired :: "timestamp \<Rightarrow> row \<Rightarrow> bool" where
  "expired now r = (case row_expire_time r of None \<Rightarrow> False | Some t \<Rightarrow> t \<le> now)"

text \<open>Modelled from the spec: the table is keyed by the user identifier.\<close>

definition find_row :: "user_id \<Rightarrow> row list \<Rightarrow> row option" where
  "find_row u rs = find (\<lambda>r. row_user r = u) rs"

definition delete_row :: "user_id \<Rightarrow> row list \<Rightarrow> row list" where
  "delete_row u rs = filter (\<lambda>r. row_user r \<noteq> u) rs"

text \<open>Modelled from the spec: the entries that are active at the current time.\<close>

definition active_rows :: "store \<Rightarrow> row list" where
  "active_rows st = filter (\<lambda>r. \<not> expired (clock st) r) (rows st)"

text \<open>
  Modelled from the spec: \<open>is_user_blacklisted\<close> and \<open>get_user_info\<close> treat an expired
  entry as absent and delete the stale row before answering.
\<close>

definition store_is_user_blacklisted :: "user_id \<Rightarrow> store \<Rightarrow> (exn + bool) \<times> store" where
  "store_is_user_blacklisted u st =
     (if storage_fault st then (Inr False, st)
      else
        (case find_row u (rows st) of
           None \<Rightarrow> (Inr False, st)
         | Some r \<Rightarrow>
             if expired (clock st) r then (Inr False, st\<lparr>rows := delete_row u (rows st)\<rparr>)
             else (Inr True, st)))"

text \<open>
  Modelled from the spec: \<open>get_user_info\<close> returns the entry of the user, or nothing when
  there is none or it is expired.
\<close>

definition store_get_user_info :: "user_id \<Rightarrow> store \<Rightarrow> (exn + row option) \<times> store" where
  "store_get_user_info u st =
     (if storage_fault st then (Inr None, st)
      else
        (case find_row u (rows st) of
           None \<Rightarrow> (Inr None, st)
         | Some r \<Rightarrow>
             if expired (clock st) r then (Inr None, st\<lparr>rows := delete_row u (rows st)\<rparr>)
             else (Inr (Some r), st)))"

text \<open>Modelled from the spec: the count of the entries that are active now.\<close>

definition store_get_blacklist_count :: "store \<Rightarrow> (exn + int) \<times> store" where
  "store_get_blacklist_count st =
     (if storage_fault st then (Inr 0, st) else (Inr (int (length (active_rows st))), st))"

text \<open>
  Modelled from the spec: a page of the active entries in the order of their ban time;
  a page out of range is clamped to the nearest valid page.
\<close>

definition store_get_blacklist_users :: "int \<Rightarrow> int \<Rightarrow> store \<Rightarrow> (exn + row list) \<times> store" where
  "store_get_blacklist_users page page_size st =
     (if storage_fault st \<or> page_size \<le> 0 then (Inr [], st)
      else
        (let xs = sort_key row_ban_time (active_rows st);
             last_page = (int (length xs) + page_size - 1) div page_size;
             p = max 1 (min page last_page)
         in (Inr (take (nat page_size) (drop (nat ((p - 1) * page_size)) xs)), st)))"

text \<open>Modelled from the spec: \<open>add_user\<close> replaces the entry of the user (delete, then insert).\<close>

definition store_add_user ::
  "user_id \<Rightarrow> timestamp \<Rightarrow> timestamp option \<Rightarrow> string \<Rightarrow> store \<Rightarrow> (exn + bool) \<times> store" where
  "store_add_user u ban_time expire_time reason st =
     (if storage_fault st then (Inr False, st)
      else (Inr True, st\<lparr>rows := delete_row u (rows st) @ [(u, ban_time, expire_time, reason)]\<rparr>))"

text \<open>Modelled from the spec: \<open>remove_user\<close> is true when a row was removed.\<close>

definition store_remove_user :: "user_id \<Rightarrow> store \<Rightarrow> (exn + bool) \<times> store" where
  "store_remove_user u st =
     (if storage_fault st then (Inr False, st)
      else
        (case find_row u (rows st) of
           None \<Rightarrow> (Inr False, st)
         | Some r \<Rightarrow> (Inr True, st\<lparr>rows := delete_row u (rows st)\<rparr>)))"

text \<open>Modelled from the spec: the record store as the collaborator of the handlers.\<close>

definition store_db :: "store database" where
  "store_db =
     \<lparr>is_user_blacklisted = store_is_user_blacklisted,
      get_user_info = store_get_user_info,
      get_blacklist_count = store_get_blacklist_count,
      get_blacklist_users = store_get_blacklist_users,
      add_user = store_add_user,
      remove_user = store_remove_user\<rparr>"

text \<open>
  The defaults of the configuration (lines 26 to 38). The default notice is a Chinese
  text in square brackets; an ASCII rendering stands for it.
\<close>

definition default_config :: config where
  "default_config =
     \<lparr>max_blacklist_duration = 1 * 24 * 60 * 60,
      allow_permanent_blacklist = True,
      show_blacklist_status = True,
      blacklist_message = ''[connection interrupted]'',
      auto_delete_expired_after = 86400,
      allow_blacklist_admin = False\<rparr>"

section \<open>Properties\<close>

subsection \<open>Auxiliary facts\<close>

lemma now_plus_seconds_in_calendar:
  assumes "0 \<le> now" and "0 < n" and "now + n * 1000000 \<le> max_datetime"
  shows "now_plus_seconds now n = Inr (now + n * 1000000)"
proof -
  have "n * 1000000 \<le> max_datetime" using assms by linarith
  then have "n \<le> 315537897599" by (simp add: max_datetime_def)
  then have "n div 86400 \<le> 999999999" by linarith
  moreover have "0 \<le> n div 86400" using assms(2) by simp
  ultimately have "timedelta_seconds n = Inr (n * 1000000)"
    by (simp add: timedelta_seconds_def)
  moreover have "0 \<le> now + n * 1000000" using assms by simp
  ultimately show ?thesis using assms(3)
    by (simp add: now_plus_seconds_def datetime_add_def)
qed


text \<open>The call reaches the store: neither of the two guards of lines 290 and 297 fires.\<close>

lemma block_user_try_passed:
  assumes "is_admin ev \<or> target_of user_id ev = get_sender_id ev \<or> get_sender_id ev = get_self_id ev"
    and "\<not> (target_of user_id ev = get_sender_id ev \<and> is_admin ev \<and> \<not> allow_blacklist_admin cfg)"
    and "is_user_blacklisted db (target_of user_id ev) s = (Inr False, s1)"
  shows "block_user_try cfg db ev t_ban t_exp user_id duration reason s =
     (case (if actual_duration cfg duration > 0
            then map_sum id Some (now_plus_seconds t_exp (actual_duration cfg duration))
            else Inr None) of
        Inl e \<Rightarrow> (Inl e, s1)
      | Inr expire_time \<Rightarrow>
          (case add_user db (target_of user_id ev) t_ban expire_time reason s1 of
             (Inl e, s2) \<Rightarrow> (Inl e, s2)
           | (Inr added, s2) \<Rightarrow>
               (Inr [(''success'', JBool True),
                     (''message'', JText (Blocked (target_of user_id ev))),
                     (''user_id'', JStr (target_of user_id ev)),
                     (''duration'', if actual_duration cfg duration > 0
                                    then JInt (actual_duration cfg duration) else JText Permanent),
                     (''reason'', JStr reason)], s2)))"
  using assms unfolding block_user_try_def Let_def by auto

subsection \<open>The message hook\<close>

text \<open>
  The claim C1 as stated fails in two places: an administrator on the blacklist is not
  suppressed while \<open>allow_blacklist_admin\<close> is off (line 93), and a blacklisted sender
  whose message chain is empty is suppressed without a notice although the notice is
  enabled (line 98).
\<close>

theorem on_all_message_guards_counterexample:
  "fst (is_user_blacklisted store_db ''alice''
          \<lparr>rows = [(''alice'', 0, None, ''spam'')], clock = 10, storage_fault = False\<rparr>) = Inr True
   \<and> on_all_message default_config store_db
        \<lparr>is_at_or_wake_command = True, get_sender_id = ''alice'', get_self_id = ''bot'',
         is_admin = True, get_messages = [''hello'']\<rparr>
        \<lparr>rows = [(''alice'', 0, None, ''spam'')], clock = 10, storage_fault = False\<rparr> =
      ([], \<lparr>rows = [(''alice'', 0, None, ''spam'')], clock = 10, storage_fault = False\<rparr>)
   \<and> on_all_message default_config store_db
        \<lparr>is_at_or_wake_command = True, get_sender_id = ''alice'', get_self_id = ''bot'',
         is_admin = False, get_messages = []\<rparr>
        \<lparr>rows = [(''alice'', 0, None, ''spam'')], clock = 10, storage_fault = False\<rparr> =
      ([Stop_event], \<lparr>rows = [(''alice'', 0, None, ''spam'')], clock = 10, storage_fault = False\<rparr>)"
  by (simp add: on_all_message_def store_db_def store_is_user_blacklisted_def default_config_def
      find_row_def row_user_def expired_def row_expire_time_def)

text \<open>
  C1 (amended). For every message addressed to the bot whose sender the store reports as
  blacklisted, and whose sender is not an administrator unless administrators may be
  blacklisted: the handler stops the event; it sends exactly one reply, the configured
  notice, when the notice is enabled and the message chain is not empty, and no reply
  otherwise.
\<close>

theorem on_all_message_blacklisted:
  assumes "is_at_or_wake_command ev"
    and "is_user_blacklisted db (get_sender_id ev) s = (Inr True, s1)"
    and "is_admin ev \<Longrightarrow> allow_blacklist_admin cfg"
  shows "on_all_message cfg db ev s =
           (Stop_event #
              (if get_messages ev \<noteq> [] \<and> show_blacklist_status cfg
               then [Send (blacklist_message cfg)] else []),
            s1)"
  using assms by (auto simp add: on_all_message_def)

theorem on_all_message_blacklisted_witness:
  "on_all_message default_config store_db
        \<lparr>is_at_or_wake_command = True, get_sender_id = ''alice'', get_self_id = ''bot'',
         is_admin = False, get_messages = [''hello'']\<rparr>
        \<lparr>rows = [(''alice'', 0, None, ''spam'')], clock = 10, storage_fault = False\<rparr> =
      ([Stop_event, Send (blacklist_message default_config)],
       \<lparr>rows = [(''alice'', 0, None, ''spam'')], clock = 10, storage_fault = False\<rparr>)
   \<and> on_all_message (default_config\<lparr>show_blacklist_status := False\<rparr>) store_db
        \<lparr>is_at_or_wake_command = True, get_sender_id = ''alice'', get_self_id = ''bot'',
         is_admin = False, get_messages = [''hello'']\<rparr>
        \<lparr>rows = [(''alice'', 0, None, ''spam'')], clock = 10, storage_fault = False\<rparr> =
      ([Stop_event],
       \<lparr>rows = [(''alice'', 0, None, ''spam'')], clock = 10, storage_fault = False\<rparr>)
   \<and> on_all_message (default_config\<lparr>allow_blacklist_admin := True\<rparr>) store_db
        \<lparr>is_at_or_wake_command = True, get_sender_id = ''alice'', get_self_id = ''bot'',
         is_admin = True, get_messages = [''hello'']\<rparr>
        \<lparr>rows = [(''alice'', 0, None, ''spam'')], clock = 10, storage_fault = False\<rparr> =
      ([Stop_event, Send (blacklist_message default_config)],
       \<lparr>rows = [(''alice'', 0, None, ''spam'')], clock = 10, storage_fault = False\<rparr>)"
proof -
  let ?ev = "\<lparr>is_at_or_wake_command = True, get_sender_id = ''alice'', get_self_id = ''bot'',
         is_admin = False, get_messages = [''hello'']\<rparr>"
  let ?adm = "\<lparr>is_at_or_wake_command = True, get_sender_id = ''alice'', get_self_id = ''bot'',
         is_admin = True, get_messages = [''hello'']\<rparr>"
  let ?st = "\<lparr>rows = [(''alice'', 0, None, ''spam'')], clock = 10, storage_fault = False\<rparr>"
  have listed: "is_user_blacklisted store_db (get_sender_id ?ev) ?st = (Inr True, ?st)"
    by (simp add: store_db_def store_is_user_blacklisted_def
        find_row_def row_user_def expired_def row_expire_time_def)
  have listed_adm: "is_user_blacklisted store_db (get_sender_id ?adm) ?st = (Inr True, ?st)"
    by (simp add: store_db_def store_is_user_blacklisted_def
        find_row_def row_user_def expired_def row_expire_time_def)
  have addressed: "is_at_or_wake_command ?ev" by simp
  have addressed_adm: "is_at_or_wake_command ?adm" by simp
  show ?thesis
    using on_all_message_blacklisted [OF addressed listed, of default_config]
      on_all_message_blacklisted [OF addressed listed,
        of "default_config\<lparr>show_blacklist_status := False\<rparr>"]
      on_all_message_blacklisted [OF addressed_adm listed_adm,
        of "default_config\<lparr>allow_blacklist_admin := True\<rparr>"]
    by (simp add: default_config_def)
qed

subsection \<open>Duration capping\<close>





subsection \<open>Permissions of the agent tools\<close>


text \<open>
  C3. A call of \<open>block_user\<close> by a sender who is not an administrator, who does not
  target themselves and who is not the bot itself returns a payload with success false
  and the permission-denied message, and leaves the store as it was.
\<close>

theorem block_user_denied:
  assumes "\<not> is_admin ev"
    and "target_of user_id ev \<noteq> get_sender_id ev"
    and "get_sender_id ev \<noteq> get_self_id ev"
  shows "block_user cfg db ev t_ban t_exp user_id duration reason s =
           (Inr [(''success'', JBool False),
                 (''message'', JText (Permission_denied (get_sender_id ev) (target_of user_id ev)))],
            s)"
  using assms by (simp add: block_user_def block_user_try_def Let_def)

theorem block_user_denied_witness:
  "\<not> is_admin \<lparr>is_at_or_wake_command = True, get_sender_id = ''mallory'', get_self_id = ''bot'',
                 is_admin = False, get_messages = [''block bob'']\<rparr>
   \<and> block_user default_config store_db
        \<lparr>is_at_or_wake_command = True, get_sender_id = ''mallory'', get_self_id = ''bot'',
         is_admin = False, get_messages = [''block bob'']\<rparr>
        100 100 (Some ''bob'') 60 ''spam''
        \<lparr>rows = [], clock = 100, storage_fault = False\<rparr> =
      (Inr [(''success'', JBool False),
            (''message'', JText (Permission_denied ''mallory'' ''bob''))],
       \<lparr>rows = [], clock = 100, storage_fault = False\<rparr>)"
  using block_user_denied [of
      "\<lparr>is_at_or_wake_command = True, get_sender_id = ''mallory'', get_self_id = ''bot'',
        is_admin = False, get_messages = [''block bob'']\<rparr>"
      "Some ''bob''" default_config store_db 100 100 60 "''spam''"
      "\<lparr>rows = [], clock = 100, storage_fault = False\<rparr>"]
  by (simp add: target_of_def)

subsection \<open>Storage failure in the block tool\<close>

text \<open>
  C4 does not hold of the code. On failing storage \<open>add_user\<close> returns False; line 328
  drops that value, and \<open>block_user\<close> reports the user as blacklisted although no row
  was written. The administrator command \<open>add\<close> tests the same value (line 197) and
  reports the error.
\<close>

theorem block_user_ignores_add_failure:
  "fst (add_user store_db ''bob'' 100 None ''spam''
          \<lparr>rows = [], clock = 100, storage_fault = True\<rparr>) = Inr False
   \<and> block_user default_config store_db
        \<lparr>is_at_or_wake_command = True, get_sender_id = ''admin'', get_self_id = ''bot'',
         is_admin = True, get_messages = [''block bob'']\<rparr>
        100 100 (Some ''bob'') 0 ''spam''
        \<lparr>rows = [], clock = 100, storage_fault = True\<rparr> =
      (Inr [(''success'', JBool True),
            (''message'', JText (Blocked ''bob'')),
            (''user_id'', JStr ''bob''),
            (''duration'', JText Permanent),
            (''reason'', JStr ''spam'')],
       \<lparr>rows = [], clock = 100, storage_fault = True\<rparr>)
   \<and> add store_db 100 100 ''bob'' 0 ''spam''
        \<lparr>rows = [], clock = 100, storage_fault = True\<rparr> =
      (Inr (Plain_result Add_error), \<lparr>rows = [], clock = 100, storage_fault = True\<rparr>)"
  by (simp add: block_user_def block_user_try_def target_of_def actual_duration_def
      default_config_def store_db_def store_is_user_blacklisted_def store_add_user_def
      add_def add_try_def Let_def)

subsection \<open>Unblocking an absent user\<close>

text \<open>
  C8. A call of \<open>unblock_user\<close> by an administrator or by the bot itself, for a user of
  whom the store has no current entry, returns success true with the message that the
  user is not on the blacklist.
\<close>

theorem unblock_user_absent:
  assumes "is_admin ev \<or> get_sender_id ev = get_self_id ev"
    and "get_user_info db user_id s = (Inr None, s1)"
  shows "unblock_user db ev user_id s =
           (Inr [(''success'', JBool True),
                 (''message'', JText (Not_in_blacklist user_id)),
                 (''user_id'', JStr user_id)], s1)"
  using assms by (auto simp add: unblock_user_def unblock_user_try_def Let_def)

theorem unblock_user_absent_witness:
  "unblock_user store_db
      \<lparr>is_at_or_wake_command = True, get_sender_id = ''admin'', get_self_id = ''bot'',
       is_admin = True, get_messages = [''unblock bob'']\<rparr>
      ''bob'' \<lparr>rows = [(''alice'', 0, None, ''spam'')], clock = 100, storage_fault = False\<rparr> =
     (Inr [(''success'', JBool True),
           (''message'', JText (Not_in_blacklist ''bob'')),
           (''user_id'', JStr ''bob'')],
      \<lparr>rows = [(''alice'', 0, None, ''spam'')], clock = 100, storage_fault = False\<rparr>)
   \<and> unblock_user store_db
      \<lparr>is_at_or_wake_command = True, get_sender_id = ''bot'', get_self_id = ''bot'',
       is_admin = False, get_messages = [''unblock bob'']\<rparr>
      ''bob'' \<lparr>rows = [(''alice'', 0, None, ''spam'')], clock = 100, storage_fault = False\<rparr> =
     (Inr [(''success'', JBool True),
           (''message'', JText (Not_in_blacklist ''bob'')),
           (''user_id'', JStr ''bob'')],
      \<lparr>rows = [(''alice'', 0, None, ''spam'')], clock = 100, storage_fault = False\<rparr>)"
proof -
  let ?st = "\<lparr>rows = [(''alice'', 0, None, ''spam'')], clock = 100, storage_fault = False\<rparr>"
  let ?adm = "\<lparr>is_at_or_wake_command = True, get_sender_id = ''admin'', get_self_id = ''bot'',
       is_admin = True, get_messages = [''unblock bob'']\<rparr>"
  let ?bot = "\<lparr>is_at_or_wake_command = True, get_sender_id = ''bot'', get_self_id = ''bot'',
       is_admin = False, get_messages = [''unblock bob'']\<rparr>"
  have absent: "get_user_info store_db ''bob'' ?st = (Inr None, ?st)"
    by (simp add: store_db_def store_get_user_info_def find_row_def row_user_def)
  have a1: "is_admin ?adm \<or> get_sender_id ?adm = get_self_id ?adm" by simp
  have a2: "is_admin ?bot \<or> get_sender_id ?bot = get_self_id ?bot" by simp
  show ?thesis
    using unblock_user_absent [OF a1 absent] unblock_user_absent [OF a2 absent] by simp
qed

subsection \<open>Negative durations\<close>

lemma actual_duration_negative:
  "duration < 0 \<Longrightarrow> actual_duration cfg duration < 0"
  by (auto simp add: actual_duration_def Let_def)

text \<open>
  The claim C10 as stated fails for a call that does not reach the store with an entry:
  with a negative duration, a call rejected by the permission check and a call for a
  target that is already blacklisted create no permanent entry and report no duration.
\<close>

theorem block_user_negative_duration_counterexample:
  "block_user default_config store_db
      \<lparr>is_at_or_wake_command = True, get_sender_id = ''mallory'', get_self_id = ''bot'',
       is_admin = False, get_messages = [''block bob'']\<rparr>
      100 100 (Some ''bob'') (- 5) ''spam''
      \<lparr>rows = [], clock = 100, storage_fault = False\<rparr> =
     (Inr [(''success'', JBool False),
           (''message'', JText (Permission_denied ''mallory'' ''bob''))],
      \<lparr>rows = [], clock = 100, storage_fault = False\<rparr>)
   \<and> map_of [(''success'', JBool False),
              (''message'', JText (Permission_denied ''mallory'' ''bob''))] ''duration'' = None
   \<and> block_user default_config store_db
      \<lparr>is_at_or_wake_command = True, get_sender_id = ''admin'', get_self_id = ''bot'',
       is_admin = True, get_messages = [''block bob'']\<rparr>
      100 100 (Some ''bob'') (- 5) ''again''
      \<lparr>rows = [(''bob'', 0, Some 500, ''spam'')], clock = 100, storage_fault = False\<rparr> =
     (Inr [(''success'', JBool True),
           (''message'', JText (Already_blacklisted ''bob'')),
           (''user_id'', JStr ''bob'')],
      \<lparr>rows = [(''bob'', 0, Some 500, ''spam'')], clock = 100, storage_fault = False\<rparr>)
   \<and> map_of [(''success'', JBool True),
              (''message'', JText (Already_blacklisted ''bob'')),
              (''user_id'', JStr ''bob'')] ''duration'' = None"
  by (simp add: block_user_def block_user_try_def target_of_def Let_def
      store_db_def store_is_user_blacklisted_def find_row_def row_user_def expired_def
      row_expire_time_def)

text \<open>
  C10 (amended). For every call of \<open>block_user\<close> with a negative duration that passes the
  permission checks, whose target is not yet blacklisted and whose call of \<open>add_user\<close>
  returns: the entry is handed to the store as permanent (no expire_time) and the
  payload reports the duration as "permanent", whatever the configuration says about
  permanent entries; with a maximum that is not negative the negative duration is not
  capped, and the duration zero is replaced by the maximum when permanent entries are
  disabled.
\<close>


theorem block_user_negative_duration:
  assumes "duration < 0"
    and "is_admin ev \<or> target_of user_id ev = get_sender_id ev \<or> get_sender_id ev = get_self_id ev"
    and "\<not> (target_of user_id ev = get_sender_id ev \<and> is_admin ev \<and> \<not> allow_blacklist_admin cfg)"
    and "is_user_blacklisted db (target_of user_id ev) s = (Inr False, s1)"
    and "add_user db (target_of user_id ev) t_ban None reason s1 = (Inr added, s2)"
  shows "block_user cfg db ev t_ban t_exp user_id duration reason s =
           (Inr [(''success'', JBool True),
                 (''message'', JText (Blocked (target_of user_id ev))),
                 (''user_id'', JStr (target_of user_id ev)),
                 (''duration'', JText Permanent),
                 (''reason'', JStr reason)], s2)
         \<and> (0 \<le> max_blacklist_duration cfg \<longrightarrow> actual_duration cfg duration = duration)
         \<and> (\<not> allow_permanent_blacklist cfg
              \<longrightarrow> actual_duration cfg 0 = max_blacklist_duration cfg)"
proof -
  have neg: "\<not> 0 < actual_duration cfg duration"
    using actual_duration_negative [OF assms(1), of cfg] by simp
  have "block_user cfg db ev t_ban t_exp user_id duration reason s =
           (Inr [(''success'', JBool True),
                 (''message'', JText (Blocked (target_of user_id ev))),
                 (''user_id'', JStr (target_of user_id ev)),
                 (''duration'', JText Permanent),
                 (''reason'', JStr reason)], s2)"
    using neg assms(5) block_user_try_passed [OF assms(2-4), of t_ban t_exp duration reason]
    by (simp add: block_user_def)
  moreover have "0 \<le> max_blacklist_duration cfg \<longrightarrow> actual_duration cfg duration = duration"
    using assms(1) by (simp add: actual_duration_def Let_def)
  moreover have "\<not> allow_permanent_blacklist cfg
      \<longrightarrow> actual_duration cfg 0 = max_blacklist_duration cfg"
    by (simp add: actual_duration_def Let_def)
  ultimately show ?thesis by simp
qed

theorem block_user_negative_duration_witness:
  "block_user (default_config\<lparr>allow_permanent_blacklist := False\<rparr>) store_db
      \<lparr>is_at_or_wake_command = True, get_sender_id = ''admin'', get_self_id = ''bot'',
       is_admin = True, get_messages = [''block bob'']\<rparr>
      100 100 (Some ''bob'') (- 5) ''spam''
      \<lparr>rows = [], clock = 100, storage_fault = False\<rparr> =
     (Inr [(''success'', JBool True),
           (''message'', JText (Blocked ''bob'')),
           (''user_id'', JStr ''bob''),
           (''duration'', JText Permanent),
           (''reason'', JStr ''spam'')],
      \<lparr>rows = [(''bob'', 100, None, ''spam'')], clock = 100, storage_fault = False\<rparr>)
   \<and> actual_duration (default_config\<lparr>allow_permanent_blacklist := False\<rparr>) (- 5) = - 5
   \<and> actual_duration (default_config\<lparr>allow_permanent_blacklist := False\<rparr>) 0 = 86400"
proof -
  let ?ev = "\<lparr>is_at_or_wake_command = True, get_sender_id = ''admin'', get_self_id = ''bot'',
       is_admin = True, get_messages = [''block bob'']\<rparr>"
  let ?st = "\<lparr>rows = [], clock = 100, storage_fault = False\<rparr>"
  let ?st2 = "\<lparr>rows = [(''bob'', 100, None, ''spam'')], clock = 100, storage_fault = False\<rparr>"
  let ?cfg = "default_config\<lparr>allow_permanent_blacklist := False\<rparr>"
  have p0: "(- 5 :: int) < 0" by simp
  have p1: "is_admin ?ev \<or> target_of (Some ''bob'') ?ev = get_sender_id ?ev \<or> get_sender_id ?ev = get_self_id ?ev"
    by simp
  have p2: "\<not> (target_of (Some ''bob'') ?ev = get_sender_id ?ev \<and> is_admin ?ev \<and> \<not> allow_blacklist_admin ?cfg)"
    by (simp add: target_of_def)
  have p3: "is_user_blacklisted store_db (target_of (Some ''bob'') ?ev) ?st = (Inr False, ?st)"
    by (simp add: store_db_def store_is_user_blacklisted_def find_row_def)
  have p4: "add_user store_db (target_of (Some ''bob'') ?ev) 100 None ''spam'' ?st = (Inr True, ?st2)"
    by (simp add: store_db_def store_add_user_def delete_row_def target_of_def)
  show ?thesis
    using block_user_negative_duration [OF p0 p1 p2 p3 p4, of 100]
    by (simp add: target_of_def default_config_def)
qed

subsection \<open>Blocking oneself\<close>

lemma block_user_stores:
  assumes "is_admin ev \<or> target_of user_id ev = get_sender_id ev \<or> get_sender_id ev = get_self_id ev"
    and "\<not> (target_of user_id ev = get_sender_id ev \<and> is_admin ev \<and> \<not> allow_blacklist_admin cfg)"
    and "is_user_blacklisted db (target_of user_id ev) s = (Inr False, s1)"
    and "0 \<le> t_exp"
    and "t_exp + actual_duration cfg duration * 1000000 \<le> max_datetime"
    and "add_user db (target_of user_id ev) t_ban
           (if 0 < actual_duration cfg duration
            then Some (t_exp + actual_duration cfg duration * 1000000) else None)
           reason s1 = (Inr added, s2)"
  shows "block_user cfg db ev t_ban t_exp user_id duration reason s =
           (Inr [(''success'', JBool True),
                 (''message'', JText (Blocked (target_of user_id ev))),
                 (''user_id'', JStr (target_of user_id ev)),
                 (''duration'', if 0 < actual_duration cfg duration
                                then JInt (actual_duration cfg duration) else JText Permanent),
                 (''reason'', JStr reason)], s2)"
proof (cases "0 < actual_duration cfg duration")
  case True
  then have "now_plus_seconds t_exp (actual_duration cfg duration) =
      Inr (t_exp + actual_duration cfg duration * 1000000)"
    using assms(4,5) by (simp add: now_plus_seconds_in_calendar)
  then show ?thesis
    using True assms(6) block_user_try_passed [OF assms(1-3), of t_ban t_exp duration reason]
    by (simp add: block_user_def)
next
  case False
  then show ?thesis
    using assms(6) block_user_try_passed [OF assms(1-3), of t_ban t_exp duration reason]
    by (simp add: block_user_def)
qed

text \<open>Past the two guards the payload never carries one of the two rejections.\<close>

lemma block_user_not_rejected:
  assumes "is_admin ev \<or> target_of user_id ev = get_sender_id ev \<or> get_sender_id ev = get_self_id ev"
    and "\<not> (target_of user_id ev = get_sender_id ev \<and> is_admin ev \<and> \<not> allow_blacklist_admin cfg)"
  shows "\<exists>p s1. block_user cfg db ev t_ban t_exp user_id duration reason s = (Inr p, s1)
           \<and> map_of p ''message'' \<noteq>
               Some (JText (Permission_denied (get_sender_id ev) (target_of user_id ev)))
           \<and> map_of p ''message'' \<noteq> Some (JText Cannot_block_admin)"
  using assms unfolding block_user_def block_user_try_def Let_def
  by (auto split: prod.splits sum.splits)

text \<open>
  C6. A call of \<open>block_user\<close> whose target is the sender: an administrator is rejected
  with success false unless administrators may be blacklisted; a sender who is not an
  administrator (and an administrator when the flag is set) is never rejected for
  missing permission, and the entry is made when the store accepts it.
\<close>

theorem block_user_self_target:
  assumes "target_of user_id ev = get_sender_id ev"
  shows "(is_admin ev \<and> \<not> allow_blacklist_admin cfg \<longrightarrow>
            block_user cfg db ev t_ban t_exp user_id duration reason s =
              (Inr [(''success'', JBool False), (''message'', JText Cannot_block_admin)], s))
       \<and> (\<not> is_admin ev \<or> allow_blacklist_admin cfg \<longrightarrow>
            (\<exists>p s1. block_user cfg db ev t_ban t_exp user_id duration reason s = (Inr p, s1)
               \<and> map_of p ''message'' \<noteq>
                   Some (JText (Permission_denied (get_sender_id ev) (target_of user_id ev)))
               \<and> map_of p ''message'' \<noteq> Some (JText Cannot_block_admin)))
       \<and> ((\<not> is_admin ev \<or> allow_blacklist_admin cfg)
            \<and> is_user_blacklisted db (target_of user_id ev) s = (Inr False, s1)
            \<and> 0 \<le> t_exp
            \<and> t_exp + actual_duration cfg duration * 1000000 \<le> max_datetime
            \<and> add_user db (target_of user_id ev) t_ban
                 (if 0 < actual_duration cfg duration
                  then Some (t_exp + actual_duration cfg duration * 1000000) else None)
                 reason s1 = (Inr added, s2) \<longrightarrow>
            block_user cfg db ev t_ban t_exp user_id duration reason s =
              (Inr [(''success'', JBool True),
                    (''message'', JText (Blocked (target_of user_id ev))),
                    (''user_id'', JStr (target_of user_id ev)),
                    (''duration'', if 0 < actual_duration cfg duration
                                   then JInt (actual_duration cfg duration) else JText Permanent),
                    (''reason'', JStr reason)], s2))"
proof (intro conjI impI)
  assume "is_admin ev \<and> \<not> allow_blacklist_admin cfg"
  then show "block_user cfg db ev t_ban t_exp user_id duration reason s =
      (Inr [(''success'', JBool False), (''message'', JText Cannot_block_admin)], s)"
    using assms by (simp add: block_user_def block_user_try_def Let_def)
next
  assume "\<not> is_admin ev \<or> allow_blacklist_admin cfg"
  then have "\<not> (target_of user_id ev = get_sender_id ev \<and> is_admin ev \<and> \<not> allow_blacklist_admin cfg)"
    by blast
  moreover have "is_admin ev \<or> target_of user_id ev = get_sender_id ev \<or> get_sender_id ev = get_self_id ev"
    using assms by simp
  ultimately show "\<exists>p s1. block_user cfg db ev t_ban t_exp user_id duration reason s = (Inr p, s1)
      \<and> map_of p ''message'' \<noteq>
          Some (JText (Permission_denied (get_sender_id ev) (target_of user_id ev)))
      \<and> map_of p ''message'' \<noteq> Some (JText Cannot_block_admin)"
    by (rule block_user_not_rejected [rotated])
next
  assume h: "(\<not> is_admin ev \<or> allow_blacklist_admin cfg)
      \<and> is_user_blacklisted db (target_of user_id ev) s = (Inr False, s1)
      \<and> 0 \<le> t_exp
      \<and> t_exp + actual_duration cfg duration * 1000000 \<le> max_datetime
      \<and> add_user db (target_of user_id ev) t_ban
           (if 0 < actual_duration cfg duration
            then Some (t_exp + actual_duration cfg duration * 1000000) else None)
           reason s1 = (Inr added, s2)"
  have g1: "is_admin ev \<or> target_of user_id ev = get_sender_id ev \<or> get_sender_id ev = get_self_id ev"
    using assms by simp
  have g2: "\<not> (target_of user_id ev = get_sender_id ev \<and> is_admin ev \<and> \<not> allow_blacklist_admin cfg)"
    using h by blast
  show "block_user cfg db ev t_ban t_exp user_id duration reason s =
      (Inr [(''success'', JBool True),
            (''message'', JText (Blocked (target_of user_id ev))),
            (''user_id'', JStr (target_of user_id ev)),
            (''duration'', if 0 < actual_duration cfg duration
                           then JInt (actual_duration cfg duration) else JText Permanent),
            (''reason'', JStr reason)], s2)"
  proof (rule block_user_stores [OF g1 g2])
    show "is_user_blacklisted db (target_of user_id ev) s = (Inr False, s1)" using h by simp
    show "0 \<le> t_exp" using h by simp
    show "t_exp + actual_duration cfg duration * 1000000 \<le> max_datetime" using h by simp
    show "add_user db (target_of user_id ev) t_ban
           (if 0 < actual_duration cfg duration
            then Some (t_exp + actual_duration cfg duration * 1000000) else None)
           reason s1 = (Inr added, s2)" using h by blast
  qed
qed

theorem block_user_self_target_witness:
  "block_user default_config store_db
      \<lparr>is_at_or_wake_command = True, get_sender_id = ''admin'', get_self_id = ''bot'',
       is_admin = True, get_messages = [''block me'']\<rparr>
      100 100 None 60 ''tired''
      \<lparr>rows = [], clock = 100, storage_fault = False\<rparr> =
     (Inr [(''success'', JBool False), (''message'', JText Cannot_block_admin)],
      \<lparr>rows = [], clock = 100, storage_fault = False\<rparr>)
   \<and> block_user default_config store_db
      \<lparr>is_at_or_wake_command = True, get_sender_id = ''carol'', get_self_id = ''bot'',
       is_admin = False, get_messages = [''block me'']\<rparr>
      100 100 None 60 ''tired''
      \<lparr>rows = [], clock = 100, storage_fault = False\<rparr> =
     (Inr [(''success'', JBool True),
           (''message'', JText (Blocked ''carol'')),
           (''user_id'', JStr ''carol''),
           (''duration'', JInt 60),
           (''reason'', JStr ''tired'')],
      \<lparr>rows = [(''carol'', 100, Some 60000100, ''tired'')], clock = 100, storage_fault = False\<rparr>)
   \<and> block_user (default_config\<lparr>allow_blacklist_admin := True\<rparr>) store_db
      \<lparr>is_at_or_wake_command = True, get_sender_id = ''admin'', get_self_id = ''bot'',
       is_admin = True, get_messages = [''block me'']\<rparr>
      100 100 None 60 ''tired''
      \<lparr>rows = [], clock = 100, storage_fault = False\<rparr> =
     (Inr [(''success'', JBool True),
           (''message'', JText (Blocked ''admin'')),
           (''user_id'', JStr ''admin''),
           (''duration'', JInt 60),
           (''reason'', JStr ''tired'')],
      \<lparr>rows = [(''admin'', 100, Some 60000100, ''tired'')], clock = 100, storage_fault = False\<rparr>)"
proof -
  let ?adm = "\<lparr>is_at_or_wake_command = True, get_sender_id = ''admin'', get_self_id = ''bot'',
       is_admin = True, get_messages = [''block me'']\<rparr>"
  let ?usr = "\<lparr>is_at_or_wake_command = True, get_sender_id = ''carol'', get_self_id = ''bot'',
       is_admin = False, get_messages = [''block me'']\<rparr>"
  let ?st = "\<lparr>rows = [], clock = 100, storage_fault = False\<rparr>"
  let ?cfg = "default_config\<lparr>allow_blacklist_admin := True\<rparr>"
  have t1: "target_of None ?adm = get_sender_id ?adm" by (simp add: target_of_def)
  have t2: "target_of None ?usr = get_sender_id ?usr" by (simp add: target_of_def)
  have d1: "actual_duration default_config 60 = 60"
    by (simp add: actual_duration_def default_config_def)
  have d2: "actual_duration ?cfg 60 = 60"
    by (simp add: actual_duration_def default_config_def)
  have l: "is_user_blacklisted store_db u ?st = (Inr False, ?st)" for u
    by (simp add: store_db_def store_is_user_blacklisted_def find_row_def)
  have a: "add_user store_db u 100 (Some 60000100) ''tired'' ?st =
      (Inr True, \<lparr>rows = [(u, 100, Some 60000100, ''tired'')], clock = 100, storage_fault = False\<rparr>)" for u
    by (simp add: store_db_def store_add_user_def delete_row_def)
  have m: "(60000100::int) \<le> max_datetime" by (simp add: max_datetime_def)
  have c1: "\<not> allow_blacklist_admin default_config" by (simp add: default_config_def)
  have c2: "allow_blacklist_admin ?cfg" by simp
  show ?thesis
    using block_user_self_target [OF t1, where cfg = default_config and db = store_db
        and t_ban = 100 and t_exp = 100 and duration = 60 and reason = "''tired''" and s = ?st]
      block_user_self_target [OF t2, where cfg = default_config and db = store_db
        and t_ban = 100 and t_exp = 100 and duration = 60 and reason = "''tired''" and s = ?st
        and ?s1.0 = ?st and added = True
        and ?s2.0 = "\<lparr>rows = [(''carol'', 100, Some 60000100, ''tired'')], clock = 100, storage_fault = False\<rparr>"]
      block_user_self_target [OF t1, where cfg = ?cfg and db = store_db
        and t_ban = 100 and t_exp = 100 and duration = 60 and reason = "''tired''" and s = ?st
        and ?s1.0 = ?st and added = True
        and ?s2.0 = "\<lparr>rows = [(''admin'', 100, Some 60000100, ''tired'')], clock = 100, storage_fault = False\<rparr>"]
    by (simp add: d1 d2 l a m c1 target_of_def)
qed

subsection \<open>Blocking a user who is already blacklisted\<close>

text \<open>An active entry, and nothing else, makes the store answer True; it stays as it is.\<close>

lemma store_is_user_blacklisted_True:
  assumes "fst (store_is_user_blacklisted u st) = Inr True"
  shows "store_is_user_blacklisted u st = (Inr True, st)"
  using assms by (auto simp add: store_is_user_blacklisted_def split: if_splits option.splits)

text \<open>
  The claim C7 as stated fails for a call that does not pass the permission check: the
  target is actively blacklisted, and the call returns success false.
\<close>

theorem block_user_duplicate_denied_counterexample:
  "fst (is_user_blacklisted store_db ''bob''
          \<lparr>rows = [(''bob'', 0, None, ''spam'')], clock = 100, storage_fault = False\<rparr>) = Inr True
   \<and> block_user default_config store_db
        \<lparr>is_at_or_wake_command = True, get_sender_id = ''mallory'', get_self_id = ''bot'',
         is_admin = False, get_messages = [''block bob'']\<rparr>
        100 100 (Some ''bob'') 0 ''again''
        \<lparr>rows = [(''bob'', 0, None, ''spam'')], clock = 100, storage_fault = False\<rparr> =
      (Inr [(''success'', JBool False),
            (''message'', JText (Permission_denied ''mallory'' ''bob''))],
       \<lparr>rows = [(''bob'', 0, None, ''spam'')], clock = 100, storage_fault = False\<rparr>)"
  by (simp add: block_user_def block_user_try_def target_of_def Let_def
      store_db_def store_is_user_blacklisted_def find_row_def row_user_def expired_def
      row_expire_time_def)

text \<open>
  C7 (amended). For every call of \<open>block_user\<close> whose target the store reports as
  actively blacklisted: a call that passes the permission checks returns success with the
  message that the user is already on the blacklist and makes no call to the store after
  the lookup; a call that does not pass them makes no call to the store at all. On the
  record store the lookup writes nothing when it answers True, so the store is the same
  after the call and the ban_time, the expire_time and the reason of the entry are
  unchanged.
\<close>

theorem block_user_duplicate:
  assumes "is_user_blacklisted db (target_of user_id ev) s = (Inr True, s1)"
  shows "((is_admin ev \<or> target_of user_id ev = get_sender_id ev
             \<or> get_sender_id ev = get_self_id ev)
            \<and> \<not> (target_of user_id ev = get_sender_id ev \<and> is_admin ev
                   \<and> \<not> allow_blacklist_admin cfg) \<longrightarrow>
           block_user cfg db ev t_ban t_exp user_id duration reason s =
             (Inr [(''success'', JBool True),
                   (''message'', JText (Already_blacklisted (target_of user_id ev))),
                   (''user_id'', JStr (target_of user_id ev))], s1))
       \<and> (\<not> ((is_admin ev \<or> target_of user_id ev = get_sender_id ev
                 \<or> get_sender_id ev = get_self_id ev)
                \<and> \<not> (target_of user_id ev = get_sender_id ev \<and> is_admin ev
                       \<and> \<not> allow_blacklist_admin cfg)) \<longrightarrow>
           snd (block_user cfg db ev t_ban t_exp user_id duration reason s) = s)
       \<and> (\<forall>st. fst (is_user_blacklisted store_db (target_of user_id ev) st) = Inr True \<longrightarrow>
             snd (block_user cfg store_db ev t_ban t_exp user_id duration reason st) = st
           \<and> find_row (target_of user_id ev)
               (rows (snd (block_user cfg store_db ev t_ban t_exp user_id duration reason st))) =
             find_row (target_of user_id ev) (rows st))"
proof (intro conjI impI allI)
  assume "(is_admin ev \<or> target_of user_id ev = get_sender_id ev
             \<or> get_sender_id ev = get_self_id ev)
            \<and> \<not> (target_of user_id ev = get_sender_id ev \<and> is_admin ev
                   \<and> \<not> allow_blacklist_admin cfg)"
  then show "block_user cfg db ev t_ban t_exp user_id duration reason s =
             (Inr [(''success'', JBool True),
                   (''message'', JText (Already_blacklisted (target_of user_id ev))),
                   (''user_id'', JStr (target_of user_id ev))], s1)"
    using assms by (auto simp add: block_user_def block_user_try_def Let_def)
next
  assume "\<not> ((is_admin ev \<or> target_of user_id ev = get_sender_id ev
                 \<or> get_sender_id ev = get_self_id ev)
                \<and> \<not> (target_of user_id ev = get_sender_id ev \<and> is_admin ev
                       \<and> \<not> allow_blacklist_admin cfg))"
  then show "snd (block_user cfg db ev t_ban t_exp user_id duration reason s) = s"
    by (auto simp add: block_user_def block_user_try_def Let_def)
next
  fix st
  assume a: "fst (is_user_blacklisted store_db (target_of user_id ev) st) = Inr True"
  have "store_is_user_blacklisted (target_of user_id ev) st = (Inr True, st)"
    using a by (simp add: store_db_def store_is_user_blacklisted_True)
  then have listed: "is_user_blacklisted store_db (target_of user_id ev) st = (Inr True, st)"
    by (simp add: store_db_def)
  show unchanged: "snd (block_user cfg store_db ev t_ban t_exp user_id duration reason st) = st"
    using listed by (simp add: block_user_def block_user_try_def Let_def)
  show "find_row (target_of user_id ev)
      (rows (snd (block_user cfg store_db ev t_ban t_exp user_id duration reason st))) =
    find_row (target_of user_id ev) (rows st)"
    unfolding unchanged ..
qed

theorem block_user_duplicate_witness:
  "block_user default_config store_db
        \<lparr>is_at_or_wake_command = True, get_sender_id = ''admin'', get_self_id = ''bot'',
         is_admin = True, get_messages = [''block bob'']\<rparr>
        100 100 (Some ''bob'') 3600 ''again''
        \<lparr>rows = [(''bob'', 0, Some 500, ''spam'')], clock = 100, storage_fault = False\<rparr> =
     (Inr [(''success'', JBool True),
           (''message'', JText (Already_blacklisted ''bob'')),
           (''user_id'', JStr ''bob'')],
      \<lparr>rows = [(''bob'', 0, Some 500, ''spam'')], clock = 100, storage_fault = False\<rparr>)
   \<and> snd (block_user default_config store_db
        \<lparr>is_at_or_wake_command = True, get_sender_id = ''mallory'', get_self_id = ''bot'',
         is_admin = False, get_messages = [''block bob'']\<rparr>
        100 100 (Some ''bob'') 3600 ''again''
        \<lparr>rows = [(''bob'', 0, Some 500, ''spam'')], clock = 100, storage_fault = False\<rparr>) =
     \<lparr>rows = [(''bob'', 0, Some 500, ''spam'')], clock = 100, storage_fault = False\<rparr>
   \<and> find_row ''bob''
       (rows (snd (block_user default_config store_db
          \<lparr>is_at_or_wake_command = True, get_sender_id = ''admin'', get_self_id = ''bot'',
           is_admin = True, get_messages = [''block bob'']\<rparr>
          100 100 (Some ''bob'') 3600 ''again''
          \<lparr>rows = [(''bob'', 0, Some 500, ''spam'')], clock = 100, storage_fault = False\<rparr>))) =
     Some (''bob'', 0, Some 500, ''spam'')"
proof -
  let ?adm = "\<lparr>is_at_or_wake_command = True, get_sender_id = ''admin'', get_self_id = ''bot'',
         is_admin = True, get_messages = [''block bob'']\<rparr>"
  let ?usr = "\<lparr>is_at_or_wake_command = True, get_sender_id = ''mallory'', get_self_id = ''bot'',
         is_admin = False, get_messages = [''block bob'']\<rparr>"
  let ?st = "\<lparr>rows = [(''bob'', 0, Some 500, ''spam'')], clock = 100, storage_fault = False\<rparr>"
  have l1: "is_user_blacklisted store_db (target_of (Some ''bob'') ?adm) ?st = (Inr True, ?st)"
    by (simp add: target_of_def store_db_def store_is_user_blacklisted_def find_row_def
        row_user_def expired_def row_expire_time_def)
  have l2: "is_user_blacklisted store_db (target_of (Some ''bob'') ?usr) ?st = (Inr True, ?st)"
    by (simp add: target_of_def store_db_def store_is_user_blacklisted_def find_row_def
        row_user_def expired_def row_expire_time_def)
  note a = block_user_duplicate [OF l1, of default_config 100 100 3600 "''again''"]
  note b = block_user_duplicate [OF l2, of default_config 100 100 3600 "''again''"]
  have first: "block_user default_config store_db ?adm 100 100 (Some ''bob'') 3600 ''again'' ?st =
     (Inr [(''success'', JBool True),
           (''message'', JText (Already_blacklisted ''bob'')),
           (''user_id'', JStr ''bob'')], ?st)"
    using a [THEN conjunct1] by (simp add: target_of_def)
  have second: "snd (block_user default_config store_db ?usr 100 100 (Some ''bob'') 3600 ''again'' ?st) = ?st"
    using b [THEN conjunct2, THEN conjunct1] by (simp add: target_of_def)
  have third: "find_row ''bob''
       (rows (snd (block_user default_config store_db ?adm 100 100 (Some ''bob'') 3600 ''again'' ?st))) =
     Some (''bob'', 0, Some 500, ''spam'')"
    using a [THEN conjunct2, THEN conjunct2, THEN spec, of ?st] l1
    by (simp add: target_of_def find_row_def row_user_def)
  show ?thesis using first second third by blast
qed

subsection \<open>Pagination\<close>

text \<open>With entries to show and a positive page size there is at least one page.\<close>

lemma total_pages_positive:
  fixes n page_size :: int
  assumes "0 < n" and "0 < page_size"
  shows "1 \<le> (n + page_size - 1) div page_size"
proof -
  have "page_size \<le> n + page_size - 1" using assms by simp
  then have "0 < (n + page_size - 1) div page_size"
    using assms(2) by (simp add: pos_imp_zdiv_pos_iff)
  then show ?thesis by simp
qed

lemma clamp_as_max_min:
  fixes page last_page :: int
  assumes "1 \<le> last_page"
  shows "(if page < 1 then 1 else if page > last_page then last_page else page) =
         max 1 (min page last_page)"
  using assms by (simp add: max_def min_def)

lemma list_blacklist_page:
  assumes "get_blacklist_count db s = (Inr n, s1)" and "0 < n" and "0 < page_size"
    and "get_blacklist_users db (max 1 (min page ((n + page_size - 1) div page_size)))
           page_size s1 = (Inr users, s2)"
  shows "list_blacklist db page page_size s =
           (Inr [(''total_count'', JInt n),
                 (''total_pages'', JInt ((n + page_size - 1) div page_size)),
                 (''current_page'', JInt (max 1 (min page ((n + page_size - 1) div page_size)))),
                 (''page_size'', JInt page_size),
                 (''users'', JArr (map (\<lambda>user. JObj (user_json user)) users))], s2)"
proof -
  have c: "(if page < 1 then 1
            else if page > (n + page_size - 1) div page_size
                 then (n + page_size - 1) div page_size else page) =
           max 1 (min page ((n + page_size - 1) div page_size))"
    by (rule clamp_as_max_min [OF total_pages_positive [OF assms(2,3)]])
  show ?thesis
    using assms(1,2,3) assms(4) [folded c]
    by (simp add: list_blacklist_def list_blacklist_try_def Let_def flip: c)
qed

lemma ls_page:
  assumes "get_blacklist_count db s = (Inr n, s1)" and "0 < n" and "0 < page_size"
    and "get_blacklist_users db (max 1 (min page ((n + page_size - 1) div page_size)))
           page_size s1 = (Inr users, s2)"
    and "text_to_image
           \<lparr>listing_rows = map (listing_row now) users,
            listing_page = max 1 (min page ((n + page_size - 1) div page_size)),
            listing_total_pages = (n + page_size - 1) div page_size,
            listing_total_count = n,
            listing_page_size = page_size,
            listing_previous =
              (if max 1 (min page ((n + page_size - 1) div page_size)) > 1
               then Some (max 1 (min page ((n + page_size - 1) div page_size)) - 1, page_size)
               else None),
            listing_next =
              (if max 1 (min page ((n + page_size - 1) div page_size))
                    < (n + page_size - 1) div page_size
               then Some (max 1 (min page ((n + page_size - 1) div page_size)) + 1, page_size)
               else None)\<rparr> = Inr None"
  shows "ls db text_to_image now page page_size s =
           (Inr (Plain_listing
              \<lparr>listing_rows = map (listing_row now) users,
               listing_page = max 1 (min page ((n + page_size - 1) div page_size)),
               listing_total_pages = (n + page_size - 1) div page_size,
               listing_total_count = n,
               listing_page_size = page_size,
               listing_previous =
                 (if max 1 (min page ((n + page_size - 1) div page_size)) > 1
                  then Some (max 1 (min page ((n + page_size - 1) div page_size)) - 1, page_size)
                  else None),
               listing_next =
                 (if max 1 (min page ((n + page_size - 1) div page_size))
                       < (n + page_size - 1) div page_size
                  then Some (max 1 (min page ((n + page_size - 1) div page_size)) + 1, page_size)
                  else None)\<rparr>), s2)"
proof -
  have c: "(if page < 1 then 1
            else if page > (n + page_size - 1) div page_size
                 then (n + page_size - 1) div page_size else page) =
           max 1 (min page ((n + page_size - 1) div page_size))"
    by (rule clamp_as_max_min [OF total_pages_positive [OF assms(2,3)]])
  show ?thesis
    using assms(1,2,3) assms(4,5) [folded c]
    by (simp add: ls_def ls_try_def Let_def flip: c)
qed

lemma list_blacklist_below:
  assumes "get_blacklist_count db s = (Inr n, s1)" and "0 < n" and "0 < page_size"
    and "page < 1"
  shows "list_blacklist db page page_size s = list_blacklist db 1 page_size s"
  using assms total_pages_positive [OF assms(2,3)]
  by (simp add: list_blacklist_def list_blacklist_try_def Let_def)

lemma list_blacklist_above:
  assumes "get_blacklist_count db s = (Inr n, s1)" and "0 < n" and "0 < page_size"
    and "(n + page_size - 1) div page_size < page"
  shows "list_blacklist db page page_size s =
         list_blacklist db ((n + page_size - 1) div page_size) page_size s"
  using assms total_pages_positive [OF assms(2,3)]
  by (simp add: list_blacklist_def list_blacklist_try_def Let_def)

lemma ls_below:
  assumes "get_blacklist_count db s = (Inr n, s1)" and "0 < n" and "0 < page_size"
    and "page < 1"
  shows "ls db text_to_image now page page_size s = ls db text_to_image now 1 page_size s"
  using assms total_pages_positive [OF assms(2,3)]
  by (simp add: ls_def ls_try_def Let_def)

lemma ls_above:
  assumes "get_blacklist_count db s = (Inr n, s1)" and "0 < n" and "0 < page_size"
    and "(n + page_size - 1) div page_size < page"
  shows "ls db text_to_image now page page_size s =
         ls db text_to_image now ((n + page_size - 1) div page_size) page_size s"
  using assms total_pages_positive [OF assms(2,3)]
  by (simp add: ls_def ls_try_def Let_def)

lemma store_count:
  "\<not> storage_fault st \<Longrightarrow>
   get_blacklist_count store_db st = (Inr (int (length (active_rows st))), st)"
  by (simp add: store_db_def store_get_blacklist_count_def)

lemma store_users:
  assumes "\<not> storage_fault st" and "0 < page_size"
  shows "get_blacklist_users store_db page page_size st =
     (Inr (take (nat page_size)
        (drop (nat ((max 1 (min page ((int (length (active_rows st)) + page_size - 1)
                                        div page_size)) - 1) * page_size))
           (sort_key row_ban_time (active_rows st)))), st)"
  using assms by (simp add: store_db_def store_get_blacklist_users_def Let_def)

text \<open>The example of the specification: 25 active entries, 10 to a page.\<close>

lemma store_list_25:
  assumes "\<not> storage_fault st" and "length (active_rows st) = 25"
  shows "list_blacklist store_db page 10 st =
     (Inr [(''total_count'', JInt 25),
           (''total_pages'', JInt 3),
           (''current_page'', JInt (max 1 (min page 3))),
           (''page_size'', JInt 10),
           (''users'', JArr (map (\<lambda>user. JObj (user_json user))
              (take 10 (drop (nat ((max 1 (min page 3) - 1) * 10))
                 (sort_key row_ban_time (active_rows st))))))], st)"
proof -
  have count: "get_blacklist_count store_db st = (Inr 25, st)"
    using store_count [OF assms(1)] assms(2) by simp
  have users: "get_blacklist_users store_db (max 1 (min page ((25 + 10 - 1) div 10))) 10 st =
     (Inr (take 10 (drop (nat ((max 1 (min page 3) - 1) * 10))
        (sort_key row_ban_time (active_rows st)))), st)"
    using store_users [OF assms(1), of 10] assms(2) by (simp add: max_def min_def)
  show ?thesis
    using list_blacklist_page [OF count _ _ users] by simp
qed

lemma store_ls_25:
  assumes "\<not> storage_fault st" and "length (active_rows st) = 25"
  shows "ls store_db (\<lambda>result. Inr None) now page 10 st =
     (Inr (Plain_listing
        \<lparr>listing_rows = map (listing_row now)
           (take 10 (drop (nat ((max 1 (min page 3) - 1) * 10))
              (sort_key row_ban_time (active_rows st)))),
         listing_page = max 1 (min page 3),
         listing_total_pages = 3,
         listing_total_count = 25,
         listing_page_size = 10,
         listing_previous =
           (if max 1 (min page 3) > 1 then Some (max 1 (min page 3) - 1, 10) else None),
         listing_next =
           (if max 1 (min page 3) < 3 then Some (max 1 (min page 3) + 1, 10) else None)\<rparr>), st)"
proof -
  have count: "get_blacklist_count store_db st = (Inr 25, st)"
    using store_count [OF assms(1)] assms(2) by simp
  have users: "get_blacklist_users store_db (max 1 (min page ((25 + 10 - 1) div 10))) 10 st =
     (Inr (take 10 (drop (nat ((max 1 (min page 3) - 1) * 10))
        (sort_key row_ban_time (active_rows st)))), st)"
    using store_users [OF assms(1), of 10] assms(2) by (simp add: max_def min_def)
  show ?thesis
    using ls_page [OF count _ _ users, of "\<lambda>result. Inr None" now] by simp
qed

text \<open>
  C9. For a listing request (\<open>ls\<close> and \<open>list_blacklist\<close>) with a positive page size over a
  blacklist that is not empty: a page below 1 is answered as page 1 and a page above the
  last page as the last page, and the answer is the listing of the clamped page, not an
  error. With 25 active entries and 10 to a page, pages 1 and 2 hold 10 entries, page 3
  holds 5, page 0 is answered as page 1 and page 4 as page 3.
\<close>

theorem listing_page_clamped:
  assumes "get_blacklist_count db s = (Inr n, s1)" and "0 < n" and "0 < page_size"
  shows "(page < 1 \<longrightarrow>
            list_blacklist db page page_size s = list_blacklist db 1 page_size s
          \<and> ls db text_to_image now page page_size s = ls db text_to_image now 1 page_size s)
       \<and> ((n + page_size - 1) div page_size < page \<longrightarrow>
            list_blacklist db page page_size s =
              list_blacklist db ((n + page_size - 1) div page_size) page_size s
          \<and> ls db text_to_image now page page_size s =
              ls db text_to_image now ((n + page_size - 1) div page_size) page_size s)
       \<and> (get_blacklist_users db (max 1 (min page ((n + page_size - 1) div page_size)))
             page_size s1 = (Inr users, s2) \<longrightarrow>
            list_blacklist db page page_size s =
              (Inr [(''total_count'', JInt n),
                    (''total_pages'', JInt ((n + page_size - 1) div page_size)),
                    (''current_page'',
                       JInt (max 1 (min page ((n + page_size - 1) div page_size)))),
                    (''page_size'', JInt page_size),
                    (''users'', JArr (map (\<lambda>user. JObj (user_json user)) users))], s2))
       \<and> (\<forall>st. \<not> storage_fault st \<and> length (active_rows st) = 25 \<longrightarrow>
            (\<exists>us. list_blacklist store_db 1 10 st =
                    (Inr [(''total_count'', JInt 25), (''total_pages'', JInt 3),
                          (''current_page'', JInt 1), (''page_size'', JInt 10),
                          (''users'', JArr us)], st) \<and> length us = 10)
          \<and> (\<exists>us. list_blacklist store_db 2 10 st =
                    (Inr [(''total_count'', JInt 25), (''total_pages'', JInt 3),
                          (''current_page'', JInt 2), (''page_size'', JInt 10),
                          (''users'', JArr us)], st) \<and> length us = 10)
          \<and> (\<exists>us. list_blacklist store_db 3 10 st =
                    (Inr [(''total_count'', JInt 25), (''total_pages'', JInt 3),
                          (''current_page'', JInt 3), (''page_size'', JInt 10),
                          (''users'', JArr us)], st) \<and> length us = 5)
          \<and> list_blacklist store_db 0 10 st = list_blacklist store_db 1 10 st
          \<and> list_blacklist store_db 4 10 st = list_blacklist store_db 3 10 st
          \<and> (\<exists>r. ls store_db (\<lambda>result. Inr None) now 1 10 st = (Inr (Plain_listing r), st)
                 \<and> listing_page r = 1 \<and> length (listing_rows r) = 10)
          \<and> (\<exists>r. ls store_db (\<lambda>result. Inr None) now 2 10 st = (Inr (Plain_listing r), st)
                 \<and> listing_page r = 2 \<and> length (listing_rows r) = 10)
          \<and> (\<exists>r. ls store_db (\<lambda>result. Inr None) now 3 10 st = (Inr (Plain_listing r), st)
                 \<and> listing_page r = 3 \<and> length (listing_rows r) = 5)
          \<and> ls store_db (\<lambda>result. Inr None) now 0 10 st =
              ls store_db (\<lambda>result. Inr None) now 1 10 st
          \<and> ls store_db (\<lambda>result. Inr None) now 4 10 st =
              ls store_db (\<lambda>result. Inr None) now 3 10 st)"
proof (intro conjI impI allI)
  assume "page < 1"
  then show "list_blacklist db page page_size s = list_blacklist db 1 page_size s"
    by (rule list_blacklist_below [OF assms])
next
  assume "page < 1"
  then show "ls db text_to_image now page page_size s = ls db text_to_image now 1 page_size s"
    by (rule ls_below [OF assms])
next
  assume "(n + page_size - 1) div page_size < page"
  then show "list_blacklist db page page_size s =
      list_blacklist db ((n + page_size - 1) div page_size) page_size s"
    by (rule list_blacklist_above [OF assms])
next
  assume "(n + page_size - 1) div page_size < page"
  then show "ls db text_to_image now page page_size s =
      ls db text_to_image now ((n + page_size - 1) div page_size) page_size s"
    by (rule ls_above [OF assms])
next
  assume "get_blacklist_users db (max 1 (min page ((n + page_size - 1) div page_size)))
      page_size s1 = (Inr users, s2)"
  then show "list_blacklist db page page_size s =
      (Inr [(''total_count'', JInt n),
            (''total_pages'', JInt ((n + page_size - 1) div page_size)),
            (''current_page'', JInt (max 1 (min page ((n + page_size - 1) div page_size)))),
            (''page_size'', JInt page_size),
            (''users'', JArr (map (\<lambda>user. JObj (user_json user)) users))], s2)"
    by (rule list_blacklist_page [OF assms])
next
  fix st :: store
  assume "\<not> storage_fault st \<and> length (active_rows st) = 25"
  then have f: "\<not> storage_fault st" and l: "length (active_rows st) = 25" by simp_all
  show "\<exists>us. list_blacklist store_db 1 10 st =
      (Inr [(''total_count'', JInt 25), (''total_pages'', JInt 3),
            (''current_page'', JInt 1), (''page_size'', JInt 10),
            (''users'', JArr us)], st) \<and> length us = 10"
    using l by (simp add: store_list_25 [OF f l])
  show "\<exists>us. list_blacklist store_db 2 10 st =
      (Inr [(''total_count'', JInt 25), (''total_pages'', JInt 3),
            (''current_page'', JInt 2), (''page_size'', JInt 10),
            (''users'', JArr us)], st) \<and> length us = 10"
    using l by (simp add: store_list_25 [OF f l])
  show "\<exists>us. list_blacklist store_db 3 10 st =
      (Inr [(''total_count'', JInt 25), (''total_pages'', JInt 3),
            (''current_page'', JInt 3), (''page_size'', JInt 10),
            (''users'', JArr us)], st) \<and> length us = 5"
    using l by (simp add: store_list_25 [OF f l])
  show "list_blacklist store_db 0 10 st = list_blacklist store_db 1 10 st"
    by (simp add: store_list_25 [OF f l])
  show "list_blacklist store_db 4 10 st = list_blacklist store_db 3 10 st"
    by (simp add: store_list_25 [OF f l])
  show "\<exists>r. ls store_db (\<lambda>result. Inr None) now 1 10 st = (Inr (Plain_listing r), st)
      \<and> listing_page r = 1 \<and> length (listing_rows r) = 10"
    using l by (simp add: store_ls_25 [OF f l])
  show "\<exists>r. ls store_db (\<lambda>result. Inr None) now 2 10 st = (Inr (Plain_listing r), st)
      \<and> listing_page r = 2 \<and> length (listing_rows r) = 10"
    using l by (simp add: store_ls_25 [OF f l])
  show "\<exists>r. ls store_db (\<lambda>result. Inr None) now 3 10 st = (Inr (Plain_listing r), st)
      \<and> listing_page r = 3 \<and> length (listing_rows r) = 5"
    using l by (simp add: store_ls_25 [OF f l])
  show "ls store_db (\<lambda>result. Inr None) now 0 10 st =
      ls store_db (\<lambda>result. Inr None) now 1 10 st"
    by (simp add: store_ls_25 [OF f l])
  show "ls store_db (\<lambda>result. Inr None) now 4 10 st =
      ls store_db (\<lambda>result. Inr None) now 3 10 st"
    by (simp add: store_ls_25 [OF f l])
qed

theorem listing_page_clamped_witness:
  "list_blacklist store_db 0 10
      \<lparr>rows = map (\<lambda>i. (replicate i CHR ''u'', int i, None, [])) [1..<26],
       clock = 100, storage_fault = False\<rparr> =
    list_blacklist store_db 1 10
      \<lparr>rows = map (\<lambda>i. (replicate i CHR ''u'', int i, None, [])) [1..<26],
       clock = 100, storage_fault = False\<rparr>
   \<and> list_blacklist store_db 4 10
      \<lparr>rows = map (\<lambda>i. (replicate i CHR ''u'', int i, None, [])) [1..<26],
       clock = 100, storage_fault = False\<rparr> =
    list_blacklist store_db 3 10
      \<lparr>rows = map (\<lambda>i. (replicate i CHR ''u'', int i, None, [])) [1..<26],
       clock = 100, storage_fault = False\<rparr>
   \<and> ls store_db (\<lambda>result. Inr None) 100 4 10
      \<lparr>rows = map (\<lambda>i. (replicate i CHR ''u'', int i, None, [])) [1..<26],
       clock = 100, storage_fault = False\<rparr> =
    ls store_db (\<lambda>result. Inr None) 100 3 10
      \<lparr>rows = map (\<lambda>i. (replicate i CHR ''u'', int i, None, [])) [1..<26],
       clock = 100, storage_fault = False\<rparr>
   \<and> (\<exists>us. list_blacklist store_db 3 10
          \<lparr>rows = map (\<lambda>i. (replicate i CHR ''u'', int i, None, [])) [1..<26],
           clock = 100, storage_fault = False\<rparr> =
        (Inr [(''total_count'', JInt 25), (''total_pages'', JInt 3),
              (''current_page'', JInt 3), (''page_size'', JInt 10),
              (''users'', JArr us)],
         \<lparr>rows = map (\<lambda>i. (replicate i CHR ''u'', int i, None, [])) [1..<26],
          clock = 100, storage_fault = False\<rparr>) \<and> length us = 5)"
proof -
  let ?st = "\<lparr>rows = map (\<lambda>i. (replicate i CHR ''u'', int i, None, [])) [1..<26],
       clock = 100, storage_fault = False\<rparr>"
  have active: "active_rows ?st = rows ?st"
    by (simp add: active_rows_def expired_def row_expire_time_def filter_map comp_def)
  have len: "length (active_rows ?st) = 25"
    unfolding active by simp
  have ok: "\<not> storage_fault ?st" by simp
  have cnt: "get_blacklist_count store_db ?st = (Inr 25, ?st)"
    using len by (simp add: store_db_def store_get_blacklist_count_def)
  have pos: "(0::int) < 25" "(0::int) < 10" by simp_all
  note low = listing_page_clamped [OF cnt pos, where page = 0 and text_to_image = "\<lambda>result. Inr None"
      and now = 100]
  note high = listing_page_clamped [OF cnt pos, where page = 4 and text_to_image = "\<lambda>result. Inr None"
      and now = 100]
  have below: "list_blacklist store_db 0 10 ?st = list_blacklist store_db 1 10 ?st"
    using low by simp
  have above: "list_blacklist store_db 4 10 ?st = list_blacklist store_db 3 10 ?st"
    and above_ls: "ls store_db (\<lambda>result. Inr None) 100 4 10 ?st =
      ls store_db (\<lambda>result. Inr None) 100 3 10 ?st"
    using high by simp_all
  have example: "\<not> storage_fault ?st \<and> length (active_rows ?st) = 25 \<longrightarrow>
      (\<exists>us. list_blacklist store_db 1 10 ?st =
              (Inr [(''total_count'', JInt 25), (''total_pages'', JInt 3),
                    (''current_page'', JInt 1), (''page_size'', JInt 10),
                    (''users'', JArr us)], ?st) \<and> length us = 10)
    \<and> (\<exists>us. list_blacklist store_db 2 10 ?st =
              (Inr [(''total_count'', JInt 25), (''total_pages'', JInt 3),
                    (''current_page'', JInt 2), (''page_size'', JInt 10),
                    (''users'', JArr us)], ?st) \<and> length us = 10)
    \<and> (\<exists>us. list_blacklist store_db 3 10 ?st =
              (Inr [(''total_count'', JInt 25), (''total_pages'', JInt 3),
                    (''current_page'', JInt 3), (''page_size'', JInt 10),
                    (''users'', JArr us)], ?st) \<and> length us = 5)
    \<and> list_blacklist store_db 0 10 ?st = list_blacklist store_db 1 10 ?st
    \<and> list_blacklist store_db 4 10 ?st = list_blacklist store_db 3 10 ?st
    \<and> (\<exists>r. ls store_db (\<lambda>result. Inr None) 100 1 10 ?st = (Inr (Plain_listing r), ?st)
           \<and> listing_page r = 1 \<and> length (listing_rows r) = 10)
    \<and> (\<exists>r. ls store_db (\<lambda>result. Inr None) 100 2 10 ?st = (Inr (Plain_listing r), ?st)
           \<and> listing_page r = 2 \<and> length (listing_rows r) = 10)
    \<and> (\<exists>r. ls store_db (\<lambda>result. Inr None) 100 3 10 ?st = (Inr (Plain_listing r), ?st)
           \<and> listing_page r = 3 \<and> length (listing_rows r) = 5)
    \<and> ls store_db (\<lambda>result. Inr None) 100 0 10 ?st =
        ls store_db (\<lambda>result. Inr None) 100 1 10 ?st
    \<and> ls store_db (\<lambda>result. Inr None) 100 4 10 ?st =
        ls store_db (\<lambda>result. Inr None) 100 3 10 ?st"
    using high [THEN conjunct2, THEN conjunct2, THEN conjunct2, THEN spec, of ?st] .
  have third: "\<exists>us. list_blacklist store_db 3 10 ?st =
              (Inr [(''total_count'', JInt 25), (''total_pages'', JInt 3),
                    (''current_page'', JInt 3), (''page_size'', JInt 10),
                    (''users'', JArr us)], ?st) \<and> length us = 5"
    using example ok len by blast
  show ?thesis
    using below above above_ls third by blast
qed

subsection \<open>The payloads of the agent tools\<close>

text \<open>No exception leaves a tool: each of them returns a payload.\<close>

lemma block_user_returns:
  "\<exists>p b. fst (block_user cfg db ev t_ban t_exp user_id duration reason s) = Inr p
     \<and> map_of p ''success'' = Some (JBool b)"
proof -
  let ?t = "target_of user_id ev"
  obtain r s1 where l: "is_user_blacklisted db ?t s = (r, s1)"
    by (cases "is_user_blacklisted db ?t s") 
  consider
      (denied) "\<not> is_admin ev" "?t \<noteq> get_sender_id ev" "get_sender_id ev \<noteq> get_self_id ev"
    | (admin) "?t = get_sender_id ev" "is_admin ev" "\<not> allow_blacklist_admin cfg"
    | (failed) e where
        "is_admin ev \<or> ?t = get_sender_id ev \<or> get_sender_id ev = get_self_id ev"
        "\<not> (?t = get_sender_id ev \<and> is_admin ev \<and> \<not> allow_blacklist_admin cfg)"
        "r = Inl e"
    | (listed) 
        "is_admin ev \<or> ?t = get_sender_id ev \<or> get_sender_id ev = get_self_id ev"
        "\<not> (?t = get_sender_id ev \<and> is_admin ev \<and> \<not> allow_blacklist_admin cfg)"
        "r = Inr True"
    | (fresh)
        "is_admin ev \<or> ?t = get_sender_id ev \<or> get_sender_id ev = get_self_id ev"
        "\<not> (?t = get_sender_id ev \<and> is_admin ev \<and> \<not> allow_blacklist_admin cfg)"
        "r = Inr False"
    by (cases r) auto
  then show ?thesis
  proof cases
    case denied
    then show ?thesis by (auto simp add: block_user_def block_user_try_def Let_def)
  next
    case admin
    then show ?thesis by (auto simp add: block_user_def block_user_try_def Let_def)
  next
    case failed
    then show ?thesis using l by (auto simp add: block_user_def block_user_try_def Let_def)
  next
    case listed
    then show ?thesis using l by (auto simp add: block_user_def block_user_try_def Let_def)
  next
    case fresh
    have l': "is_user_blacklisted db ?t s = (Inr False, s1)" using l fresh(3) by simp
    show ?thesis
      unfolding block_user_def block_user_try_passed [OF fresh(1,2) l']
      by (auto split: sum.splits prod.splits)
  qed
qed

lemma unblock_user_returns:
  "\<exists>p b. fst (unblock_user db ev user_id s) = Inr p \<and> map_of p ''success'' = Some (JBool b)"
  unfolding unblock_user_def unblock_user_try_def Let_def
  by (auto split: prod.splits sum.splits option.splits)

lemma list_blacklist_returns:
  "\<exists>p. fst (list_blacklist db page page_size s) = Inr p
     \<and> map_of p ''success'' = None
     \<and> ((\<exists>v. map_of p ''total_count'' = Some v) \<and> (\<exists>v. map_of p ''users'' = Some v)
          \<or> (\<exists>v. map_of p ''error'' = Some v))"
  unfolding list_blacklist_def list_blacklist_try_def Let_def
  by (auto split: prod.splits sum.splits)

lemma get_blacklist_status_returns:
  "\<exists>p. fst (get_blacklist_status db ev user_id s) = Inr p
     \<and> map_of p ''success'' = None
     \<and> ((\<exists>v. map_of p ''is_blacklisted'' = Some v) \<and> (\<exists>v. map_of p ''user_id'' = Some v)
          \<or> (\<exists>v. map_of p ''error'' = Some v))"
  unfolding get_blacklist_status_def get_blacklist_status_try_def Let_def user_json_def
  by (auto split: prod.splits sum.splits option.splits)

text \<open>
  The claim C5 as stated fails for the two query tools: their payloads carry no success
  flag.
\<close>

theorem list_blacklist_no_success_flag_counterexample:
  "list_blacklist store_db 1 10 \<lparr>rows = [], clock = 100, storage_fault = False\<rparr> =
     (Inr [(''total_count'', JInt 0), (''users'', JArr [])],
      \<lparr>rows = [], clock = 100, storage_fault = False\<rparr>)
   \<and> map_of [(''total_count'', JInt 0), (''users'', JArr [])] ''success'' = None
   \<and> get_blacklist_status store_db
        \<lparr>is_at_or_wake_command = True, get_sender_id = ''carol'', get_self_id = ''bot'',
         is_admin = False, get_messages = [''am I blocked'']\<rparr>
        None \<lparr>rows = [], clock = 100, storage_fault = False\<rparr> =
     (Inr [(''is_blacklisted'', JBool False), (''user_id'', JStr ''carol'')],
      \<lparr>rows = [], clock = 100, storage_fault = False\<rparr>)
   \<and> map_of [(''is_blacklisted'', JBool False), (''user_id'', JStr ''carol'')] ''success'' = None"
  by (simp add: list_blacklist_def list_blacklist_try_def get_blacklist_status_def
      get_blacklist_status_try_def target_of_def store_db_def store_get_blacklist_count_def
      store_get_user_info_def active_rows_def find_row_def)

text \<open>
  C5 (amended). Each of the four agent tools returns a structured payload for every
  input and every behaviour of the store, and lets no exception pass. The payloads of
  \<open>block_user\<close> and \<open>unblock_user\<close> contain a success flag. The payloads of
  \<open>list_blacklist\<close> and \<open>get_blacklist_status\<close> contain none: they hold the data
  (total_count and users, is_blacklisted and user_id) or, after an exception, an error
  text.
\<close>

theorem tools_return_payload:
  "(\<exists>p b. fst (block_user cfg db ev t_ban t_exp user_id duration reason s) = Inr p
       \<and> map_of p ''success'' = Some (JBool b))
   \<and> (\<exists>p b. fst (unblock_user db ev uid s) = Inr p \<and> map_of p ''success'' = Some (JBool b))
   \<and> (\<exists>p. fst (list_blacklist db page page_size s) = Inr p
         \<and> map_of p ''success'' = None
         \<and> ((\<exists>v. map_of p ''total_count'' = Some v) \<and> (\<exists>v. map_of p ''users'' = Some v)
              \<or> (\<exists>v. map_of p ''error'' = Some v)))
   \<and> (\<exists>p. fst (get_blacklist_status db ev user_id s) = Inr p
         \<and> map_of p ''success'' = None
         \<and> ((\<exists>v. map_of p ''is_blacklisted'' = Some v) \<and> (\<exists>v. map_of p ''user_id'' = Some v)
              \<or> (\<exists>v. map_of p ''error'' = Some v)))"
  using block_user_returns unblock_user_returns list_blacklist_returns
    get_blacklist_status_returns
  by (intro conjI)

end
